theory Spec2Isabelle
  imports Main
begin

section \<open>The conversation store (frontend/src/store/sessionStore.ts)\<close>

text \<open>
  The store is a zustand store: a record of fields and setter operations, each setter
  returning the next store value. Field names shared by several TypeScript interfaces
  (\<open>id\<close>, \<open>session_id\<close>, \<open>conversation_id\<close>, \<open>content\<close>, \<open>metadata\<close>, ...) carry a
  prefix naming their interface: \<open>s_\<close> for Session, \<open>c_\<close> for Conversation, \<open>m_\<close> for
  Message and \<open>ws_\<close> for WebSocketMessage.
\<close>

datatype json =
    JNull
  | JBool bool
  | JNum int
  | JStr string
  | JArr "json list"
  | JObj "(string \<times> json) list"

text \<open>\<open>Record<string, any>\<close>: the keys of an object with their values, in key order.\<close>

type_synonym any_record = "(string \<times> json) list"

datatype SessionStatus = Session_active | Session_paused | Session_completed | Session_error

datatype ConversationStatus = Conversation_active | Conversation_completed | Conversation_error

datatype Role = User | Assistant | System

datatype MessageType = Text | Code | Image | File

datatype AgentStatus = Idle | Thinking | Responding | Executing | Error

record Session =
  s_id :: string
  s_title :: string
  s_description :: "string option"
  s_status :: SessionStatus
  s_llm_provider :: string
  s_llm_model :: string
  s_temperature :: string
  s_max_tokens :: int
  s_workspace_path :: "string option"
  s_git_repo :: "string option"
  s_branch :: string
  s_metadata :: any_record
  s_created_at :: string
  s_updated_at :: string

record Message =
  m_id :: string
  m_conversation_id :: string
  m_role :: Role
  m_content :: string
  m_message_type :: MessageType
  m_tokens_used :: int
  m_execution_time :: "string option"
  m_metadata :: any_record
  m_created_at :: string
  m_updated_at :: string

record Conversation =
  c_id :: string
  c_session_id :: string
  c_title :: string
  c_status :: ConversationStatus
  c_agent_type :: string
  c_agent_config :: any_record
  c_metadata :: any_record
  c_messages :: "Message list"
  c_created_at :: string
  c_updated_at :: string

text \<open>
  The data fields of \<open>SessionState\<close>. \<open>conversations\<close> is a \<open>Record<string, Conversation[]>\<close>:
  the session ids with their conversation lists, in the key order \<open>for ... in\<close> visits them.
  \<open>wsConnection\<close> holds a reference to a WebSocket object, here the index of the socket in
  the list of sockets created so far.
\<close>

record SessionState =
  currentSession :: "Session option"
  sessions :: "Session list"
  currentConversation :: "Conversation option"
  conversations :: "(string \<times> Conversation list) list"
  isLoading :: bool
  wsConnection :: "nat option"
  agentStatus :: AgentStatus
  currentResponse :: string

text \<open>The initial values given to \<open>create\<close>.\<close>

definition initialState :: SessionState where
  "initialState =
     \<lparr> currentSession = None, sessions = [], currentConversation = None, conversations = [],
       isLoading = False, wsConnection = None, agentStatus = Idle, currentResponse = [] \<rparr>"

text \<open>
  \<open>{ ...c, messages: [...c.messages, message] }\<close> when \<open>c.id === message.conversation_id\<close>,
  else \<open>c\<close>: the function mapped over every conversation list by \<open>addMessage\<close>.
\<close>

definition appendIfTarget :: "Message \<Rightarrow> Conversation \<Rightarrow> Conversation" where
  "appendIfTarget message c =
     (if c_id c = m_conversation_id message
      then c\<lparr>c_messages := c_messages c @ [message]\<rparr>
      else c)"

definition addMessage :: "Message \<Rightarrow> SessionState \<Rightarrow> SessionState" where
  "addMessage message state =
     state\<lparr> conversations :=
              map (\<lambda>(sessionId, cs). (sessionId, map (appendIfTarget message) cs))
                  (conversations state),
            currentConversation :=
              (case currentConversation state of
                 None \<Rightarrow> None
               | Some cc \<Rightarrow>
                   (if c_id cc = m_conversation_id message
                    then Some (cc\<lparr>c_messages := c_messages cc @ [message]\<rparr>)
                    else Some cc)) \<rparr>"

definition setWsConnection :: "nat option \<Rightarrow> SessionState \<Rightarrow> SessionState" where
  "setWsConnection ws state = state\<lparr>wsConnection := ws\<rparr>"

definition setAgentStatus :: "AgentStatus \<Rightarrow> SessionState \<Rightarrow> SessionState" where
  "setAgentStatus status state = state\<lparr>agentStatus := status\<rparr>"

definition setCurrentResponse :: "string \<Rightarrow> SessionState \<Rightarrow> SessionState" where
  "setCurrentResponse response state = state\<lparr>currentResponse := response\<rparr>"

definition addToCurrentResponse :: "string \<Rightarrow> SessionState \<Rightarrow> SessionState" where
  "addToCurrentResponse chunk state = state\<lparr>currentResponse := currentResponse state @ chunk\<rparr>"

definition clearCurrentResponse :: "SessionState \<Rightarrow> SessionState" where
  "clearCurrentResponse state = state\<lparr>currentResponse := []\<rparr>"

text \<open>Every conversation the store holds: those of all sessions, then the current one.\<close>

definition heldConversations :: "SessionState \<Rightarrow> Conversation list" where
  "heldConversations state =
     concat (map snd (conversations state)) @
     (case currentConversation state of None \<Rightarrow> [] | Some cc \<Rightarrow> [cc])"


section \<open>The connection hook (useWebSocket)\<close>

subsection \<open>Inbound frames\<close>

text \<open>
  The \<open>WebSocketMessage\<close> interface. Optional fields are options. The last five fields are
  the ones \<open>handleMessage\<close> reads through the index signature \<open>[key: string]: any\<close>.
\<close>

record WebSocketMessage =
  ws_type :: string
  ws_content :: "string option"
  ws_session_id :: "string option"
  ws_conversation_id :: "string option"
  ws_full_response :: "string option"
  ws_timestamp :: "int option"
  ws_success :: "bool option"
  ws_action :: "string option"
  ws_filepath :: "string option"
  ws_error :: "string option"
  ws_message :: "string option"

text \<open>
  \<open>event.data\<close> as \<open>JSON.parse\<close> sees it: either the parse throws, or it yields a message.
\<close>

datatype MessageData = Unparseable | Parses WebSocketMessage

text \<open>
  JavaScript truthiness of an optional string, as tested by \<open>if (message.content)\<close>,
  \<open>if (message.full_response)\<close> and \<open>if (!sessionId)\<close>: \<open>undefined\<close>, \<open>null\<close> and the empty
  string are falsy.
\<close>

definition truthy :: "string option \<Rightarrow> bool" where
  "truthy v = (case v of None \<Rightarrow> False | Some s \<Rightarrow> s \<noteq> [])"

text \<open>\<open>v || d\<close> for an optional string \<open>v\<close>.\<close>

definition orElse :: "string option \<Rightarrow> string \<Rightarrow> string" where
  "orElse v d = (case v of None \<Rightarrow> d | Some s \<Rightarrow> (if s \<noteq> [] then s else d))"

text \<open>
  \<open>${v}\<close> in a template literal, for a field that is a string or absent: an absent
  field prints as \<open>undefined\<close>. (A field sent as JSON \<open>null\<close> would print as \<open>null\<close>; the
  frames modelled here carry strings only.)
\<close>

definition interpolate :: "string option \<Rightarrow> string" where
  "interpolate v = (case v of None \<Rightarrow> ''undefined'' | Some s \<Rightarrow> s)"

text \<open>
  The values \<open>handleMessage\<close> takes from the runtime while building a Message:
  \<open>crypto.randomUUID()\<close> and the two calls of \<open>new Date().toISOString()\<close>.
\<close>

record Runtime =
  randomUUID :: string
  createdISO :: string
  updatedISO :: string

subsection \<open>Observable effects outside the store\<close>

text \<open>Calls of \<open>toast\<close> (react-hot-toast), in call order.\<close>

datatype Toast =
    Toast_loading string string
  | Toast_dismiss string
  | Toast_success string
  | Toast_error string

text \<open>Calls of \<open>console.log\<close> and \<open>console.error\<close>, with their first argument.\<close>

datatype ConsoleEntry = Console_log string | Console_error string

subsection \<open>Sockets and the hook's state\<close>

datatype ReadyState = CONNECTING | OPEN | CLOSING | CLOSED

text \<open>Outbound frames: \<open>JSON.stringify({type: 'ping', timestamp: Date.now()})\<close>.\<close>

datatype OutFrame = Ping int

text \<open>
  A WebSocket object: its url, its ready state, the frames handed to \<open>send\<close>, and the
  arguments of the \<open>close\<close> call that started its closing, if any. Every socket in the
  hook's list was created by \<open>connect\<close> and carries the four handlers \<open>connect\<close> assigns.
\<close>

record WebSocket =
  url :: string
  readyState :: ReadyState
  sent :: "OutFrame list"
  closeArgs :: "(nat \<times> string) option"

text \<open>
  The state one instance of the hook works on: its argument \<open>sessionId\<close>, the window's
  location, the three refs, the sockets constructed so far (a reference to a socket is its
  index), the pending timers of \<open>setTimeout\<close> (handle and delay in ms), the two stores, and
  the effect logs. \<open>uncaught\<close> lists the exceptions that left an event handler.
\<close>

record Hook =
  sessionId :: "string option"
  location_protocol :: string
  location_host :: string
  sockets :: "WebSocket list"
  wsRef :: "nat option"
  reconnectTimeoutRef :: "nat option"
  reconnectAttemptsRef :: nat
  timers :: "(nat \<times> nat) list"
  nextTimer :: nat
  store :: SessionState
  isConnected :: bool
  toasts :: "Toast list"
  console :: "ConsoleEntry list"
  uncaught :: "string list"

definition maxReconnectAttempts :: nat where
  "maxReconnectAttempts = 5"

subsection \<open>The browser's side of the API\<close>

text \<open>
  \<open>setTimeout\<close> returns a fresh positive handle and records the pending timer;
  \<open>clearTimeout\<close> removes the pending timer with that handle, if there is one.
\<close>

definition setTimeout :: "nat \<Rightarrow> Hook \<Rightarrow> nat \<times> Hook" where
  "setTimeout delay h =
     (nextTimer h, h\<lparr>timers := timers h @ [(nextTimer h, delay)], nextTimer := Suc (nextTimer h)\<rparr>)"

definition clearTimeout :: "nat \<Rightarrow> Hook \<Rightarrow> Hook" where
  "clearTimeout t h = h\<lparr>timers := filter (\<lambda>(k, d). k \<noteq> t) (timers h)\<rparr>"

text \<open>
  \<open>ws.send(frame)\<close>: throws \<open>InvalidStateError\<close> while the socket is connecting, queues the
  frame when it is open, and discards it silently when it is closing or closed.
\<close>

definition ws_send :: "nat \<Rightarrow> OutFrame \<Rightarrow> Hook \<Rightarrow> string + Hook" where
  "ws_send i frame h =
     (if i < length (sockets h)
      then (case readyState (sockets h ! i) of
              CONNECTING \<Rightarrow> Inl ''InvalidStateError''
            | OPEN \<Rightarrow>
                Inr (h\<lparr>sockets := (sockets h)[i := (sockets h ! i)\<lparr>sent := sent (sockets h ! i) @ [frame]\<rparr>]\<rparr>)
            | CLOSING \<Rightarrow> Inr h
            | CLOSED \<Rightarrow> Inr h)
      else Inr h)"

text \<open>
  \<open>ws.close(code, reason)\<close>: nothing on a socket that is closing or closed; otherwise the
  closing starts and the ready state becomes \<open>CLOSING\<close>.
\<close>

definition ws_close :: "nat \<Rightarrow> nat \<Rightarrow> string \<Rightarrow> Hook \<Rightarrow> Hook" where
  "ws_close i code reason h =
     (if i < length (sockets h)
      then (case readyState (sockets h ! i) of
              CLOSING \<Rightarrow> h
            | CLOSED \<Rightarrow> h
            | _ \<Rightarrow> h\<lparr>sockets := (sockets h)[i := (sockets h ! i)\<lparr>readyState := CLOSING,
                                                                 closeArgs := Some (code, reason)\<rparr>]\<rparr>)
      else h)"

subsection \<open>handleMessage\<close>

definition handleMessage :: "Runtime \<Rightarrow> WebSocketMessage \<Rightarrow> Hook \<Rightarrow> Hook" where
  "handleMessage rt message h =
     (if ws_type message = ''pong'' then h
      else if ws_type message = ''agent_response_start'' then
        h\<lparr>store := clearCurrentResponse (setAgentStatus Responding (store h))\<rparr>
      else if ws_type message = ''agent_response_chunk'' then
        (if truthy (ws_content message)
         then h\<lparr>store := addToCurrentResponse (the (ws_content message)) (store h)\<rparr>
         else h)
      else if ws_type message = ''agent_response_end'' then
        (let s1 = setAgentStatus Idle (store h);
             s2 = (if truthy (ws_full_response message)
                   then addMessage
                          \<lparr> m_id = randomUUID rt,
                            m_conversation_id = orElse (ws_conversation_id message) [],
                            m_role = Assistant,
                            m_content = the (ws_full_response message),
                            m_message_type = Text,
                            m_tokens_used = 0,
                            m_execution_time = None,
                            m_metadata = [],
                            m_created_at = createdISO rt,
                            m_updated_at = updatedISO rt \<rparr> s1
                   else s1)
         in h\<lparr>store := clearCurrentResponse s2\<rparr>)
      else if ws_type message = ''code_execution'' then
        h\<lparr>store := setAgentStatus Executing (store h),
          toasts := toasts h @ [Toast_loading ''Executing code...'' ''code-execution'']\<rparr>
      else if ws_type message = ''code_result'' then
        h\<lparr>store := setAgentStatus Idle (store h),
          toasts := toasts h @
            [Toast_dismiss ''code-execution'',
             (if ws_success message = Some True
              then Toast_success ''Code executed successfully''
              else Toast_error ''Code execution failed'')]\<rparr>
      else if ws_type message = ''file_change'' then
        h\<lparr>toasts := toasts h @
            [Toast_success (''File '' @ interpolate (ws_action message) @ '': '' @
                            interpolate (ws_filepath message))]\<rparr>
      else if ws_type message = ''agent_error'' then
        h\<lparr>store := setAgentStatus Error (store h),
          toasts := toasts h @ [Toast_error (''Agent error: '' @ interpolate (ws_error message))]\<rparr>
      else if ws_type message = ''error'' then
        h\<lparr>toasts := toasts h @ [Toast_error (orElse (ws_message message) ''An error occurred'')]\<rparr>
      else
        h\<lparr>console := console h @ [Console_log ''Unknown message type:'']\<rparr>)"

subsection \<open>connect and the handlers it assigns\<close>

text \<open>
  \<open>new WebSocket(url)\<close>: the argument \<open>fails\<close> says whether the constructor throws (and
  what); otherwise a new connecting socket is added and its reference returned.
\<close>

definition newWebSocket :: "string option \<Rightarrow> string \<Rightarrow> Hook \<Rightarrow> string + (nat \<times> Hook)" where
  "newWebSocket fails u h =
     (case fails of
        Some err \<Rightarrow> Inl err
      | None \<Rightarrow>
          Inr (length (sockets h),
               h\<lparr>sockets := sockets h @
                    [\<lparr>url = u, readyState = CONNECTING, sent = [], closeArgs = None\<rparr>]\<rparr>))"

definition wsUrl :: "Hook \<Rightarrow> string" where
  "wsUrl h =
     (if location_protocol h = ''https:'' then ''wss:'' else ''ws:'') @ ''//'' @
     location_host h @ ''/ws/'' @ interpolate (sessionId h)"

text \<open>
  \<open>connect\<close>: returns at once without a session id; otherwise the \<open>try\<close> block constructs
  the socket, stores it in \<open>wsRef\<close> and assigns the handlers, and the \<open>catch\<close> block logs
  and sets the connection status.
\<close>

definition connect :: "string option \<Rightarrow> Hook \<Rightarrow> Hook" where
  "connect fails h =
     (if \<not> truthy (sessionId h) then h
      else (case newWebSocket fails (wsUrl h) h of
              Inr (ws, h') \<Rightarrow> h'\<lparr>wsRef := Some ws\<rparr>
            | Inl err \<Rightarrow>
                h\<lparr>console := console h @ [Console_error ''Error creating WebSocket connection:''],
                  isConnected := False\<rparr>))"

text \<open>\<open>onopen\<close>; \<open>now\<close> is \<open>Date.now()\<close>. The ping goes to the socket \<open>wsRef\<close> holds.\<close>

definition onopen :: "int \<Rightarrow> Hook \<Rightarrow> Hook" where
  "onopen now h =
     (let h1 = h\<lparr>console := console h @ [Console_log ''WebSocket connected''],
                 isConnected := True,
                 store := setWsConnection (wsRef h) (store h),
                 reconnectAttemptsRef := 0\<rparr>
      in case wsRef h1 of
           None \<Rightarrow> h1
         | Some ws \<Rightarrow>
             (case ws_send ws (Ping now) h1 of
                Inr h2 \<Rightarrow> h2
              | Inl err \<Rightarrow> h1\<lparr>uncaught := uncaught h1 @ [err]\<rparr>))"

text \<open>\<open>JSON.parse(event.data)\<close>: throws \<open>SyntaxError\<close> on data that does not parse.\<close>

definition JSON_parse :: "MessageData \<Rightarrow> string + WebSocketMessage" where
  "JSON_parse d = (case d of Unparseable \<Rightarrow> Inl ''SyntaxError'' | Parses m \<Rightarrow> Inr m)"

definition onmessage :: "Runtime \<Rightarrow> MessageData \<Rightarrow> Hook \<Rightarrow> Hook" where
  "onmessage rt d h =
     (case JSON_parse d of
        Inr message \<Rightarrow> handleMessage rt message h
      | Inl err \<Rightarrow> h\<lparr>console := console h @ [Console_error ''Error parsing WebSocket message:'']\<rparr>)"

text \<open>
  \<open>onclose\<close> with \<open>event.code\<close>. The callback given to \<open>setTimeout\<close> is
  \<open>reconnect_callback\<close> below.
\<close>

definition onclose :: "nat \<Rightarrow> Hook \<Rightarrow> Hook" where
  "onclose code h =
     (let h1 = h\<lparr>console := console h @ [Console_log ''WebSocket disconnected:''],
                 isConnected := False,
                 store := setAgentStatus Idle (setWsConnection None (store h))\<rparr>
      in if code \<noteq> 1000 \<and> reconnectAttemptsRef h1 < maxReconnectAttempts
         then (let delay = min (1000 * 2 ^ reconnectAttemptsRef h1) 30000;
                   (t, h2) = setTimeout delay h1
               in h2\<lparr>reconnectTimeoutRef := Some t\<rparr>)
         else h1)"

definition reconnect_callback :: "string option \<Rightarrow> Hook \<Rightarrow> Hook" where
  "reconnect_callback fails h =
     connect fails (h\<lparr>reconnectAttemptsRef := Suc (reconnectAttemptsRef h)\<rparr>)"

definition onerror :: "Hook \<Rightarrow> Hook" where
  "onerror h = h\<lparr>console := console h @ [Console_error ''WebSocket error:''], isConnected := False\<rparr>"

subsection \<open>disconnect\<close>

text \<open>
  \<open>if (reconnectTimeoutRef.current)\<close> and \<open>if (wsRef.current)\<close> test whether the ref holds
  a timer or a socket at all: a \<open>NodeJS.Timeout\<close> and a \<open>WebSocket\<close> are truthy.
\<close>

definition disconnect :: "Hook \<Rightarrow> Hook" where
  "disconnect h =
     (let h1 = (case reconnectTimeoutRef h of None \<Rightarrow> h | Some t \<Rightarrow> clearTimeout t h);
          h2 = (case wsRef h1 of None \<Rightarrow> h1 | Some ws \<Rightarrow> ws_close ws 1000 ''Component unmounting'' h1)
      in h2\<lparr>isConnected := False, store := setWsConnection None (store h2)\<rparr>)"

subsection \<open>Running the hook\<close>

text \<open>
  What can happen to a mounted hook: the component calls \<open>connect\<close> (also exported as
  \<open>reconnect\<close>) or \<open>disconnect\<close>, or the browser fires an event on one of the sockets or
  lets a pending timer expire. The browser opens only a connecting socket, delivers
  messages only on an open one, closes a socket once, and sets the ready state before it
  calls the handler.
\<close>

datatype Event =
    Call_connect "string option"
  | Call_disconnect
  | Ev_open nat int
  | Ev_message nat Runtime MessageData
  | Ev_close nat nat
  | Ev_error nat
  | Ev_timeout nat "string option"

definition setReadyState :: "nat \<Rightarrow> ReadyState \<Rightarrow> Hook \<Rightarrow> Hook" where
  "setReadyState i r h = h\<lparr>sockets := (sockets h)[i := (sockets h ! i)\<lparr>readyState := r\<rparr>]\<rparr>"

fun step :: "Event \<Rightarrow> Hook \<Rightarrow> Hook" where
  "step (Call_connect fails) h = connect fails h"
| "step Call_disconnect h = disconnect h"
| "step (Ev_open i now) h =
     (if i < length (sockets h) \<and> readyState (sockets h ! i) = CONNECTING
      then onopen now (setReadyState i OPEN h) else h)"
| "step (Ev_message i rt d) h =
     (if i < length (sockets h) \<and> readyState (sockets h ! i) = OPEN
      then onmessage rt d h else h)"
| "step (Ev_close i code) h =
     (if i < length (sockets h) \<and> readyState (sockets h ! i) \<noteq> CLOSED
      then onclose code (setReadyState i CLOSED h) else h)"
| "step (Ev_error i) h = (if i < length (sockets h) then onerror h else h)"
| "step (Ev_timeout t fails) h =
     (if t \<in> set (map fst (timers h))
      then reconnect_callback fails (clearTimeout t h) else h)"

definition run :: "Event list \<Rightarrow> Hook \<Rightarrow> Hook" where
  "run es h = fold step es h"

text \<open>The dispatcher on a sequence of inbound frames, in arrival order.\<close>

definition dispatch :: "(Runtime \<times> MessageData) list \<Rightarrow> Hook \<Rightarrow> Hook" where
  "dispatch frames h = fold (\<lambda>(rt, d). onmessage rt d) frames h"

text \<open>A freshly mounted hook, with both stores at their initial values.\<close>

definition initialHook :: "string option \<Rightarrow> string \<Rightarrow> string \<Rightarrow> Hook" where
  "initialHook sid protocol host =
     \<lparr> sessionId = sid, location_protocol = protocol, location_host = host,
       sockets = [], wsRef = None, reconnectTimeoutRef = None, reconnectAttemptsRef = 0,
       timers = [], nextTimer = 1, store = initialState, isConnected = False,
       toasts = [], console = [], uncaught = [] \<rparr>"

text \<open>
  One failed connection attempt: the socket \<open>wsRef\<close> holds closes with \<open>code\<close>, then the
  timer \<open>reconnectTimeoutRef\<close> holds expires (its reconnect constructs a socket).
\<close>

definition failedAttempt :: "nat \<Rightarrow> Hook \<Rightarrow> Hook" where
  "failedAttempt code h =
     (case wsRef h of
        None \<Rightarrow> h
      | Some ws \<Rightarrow>
          (let h1 = step (Ev_close ws code) h
           in case reconnectTimeoutRef h1 of
                None \<Rightarrow> h1
              | Some t \<Rightarrow> step (Ev_timeout t None) h1))"

subsection \<open>The dispatch table of the specification\<close>

text \<open>
  The agent state each event kind dictates according to the table of recognized event
  kinds: \<open>None\<close> for the kinds that do not transition the agent state.
\<close>

definition recognizedKinds :: "string list" where
  "recognizedKinds =
     [''pong'', ''agent_response_start'', ''agent_response_chunk'', ''agent_response_end'',
      ''code_execution'', ''code_result'', ''file_change'', ''agent_error'', ''error'']"

definition dictatedState :: "MessageData \<Rightarrow> AgentStatus option" where
  "dictatedState d =
     (case d of
        Unparseable \<Rightarrow> None
      | Parses m \<Rightarrow>
          (if ws_type m = ''agent_response_start'' then Some Responding
           else if ws_type m = ''agent_response_end'' then Some Idle
           else if ws_type m = ''code_execution'' then Some Executing
           else if ws_type m = ''code_result'' then Some Idle
           else if ws_type m = ''agent_error'' then Some Error
           else None))"

text \<open>The state dictated by the last state-transitioning frame of a sequence, if any.\<close>

fun lastDictated :: "(Runtime \<times> MessageData) list \<Rightarrow> AgentStatus option" where
  "lastDictated [] = None"
| "lastDictated ((rt, d) # frames) =
     (case lastDictated frames of
        Some s \<Rightarrow> Some s
      | None \<Rightarrow> dictatedState d)"

text \<open>Frames that are to be ignored: pong, an unrecognized type, or undecodable data.\<close>

definition ignoredFrame :: "MessageData \<Rightarrow> bool" where
  "ignoredFrame d =
     (case d of
        Unparseable \<Rightarrow> True
      | Parses m \<Rightarrow> ws_type m = ''pong'' \<or> ws_type m \<notin> set recognizedKinds)"

subsection \<open>Invariants of the connection manager\<close>

text \<open>Every socket constructed so far is closed (in particular when there is none).\<close>

definition allClosed :: "Hook \<Rightarrow> bool" where
  "allClosed h = list_all (\<lambda>s. readyState s = CLOSED) (sockets h)"

text \<open>The agent is idle whenever no transport is left.\<close>

definition idleWhenClosed :: "Hook \<Rightarrow> bool" where
  "idleWhenClosed h = (allClosed h \<longrightarrow> agentStatus (store h) = Idle)"

text \<open>
  The state after \<open>n\<close> failed attempts in a row: the sockets of the earlier attempts are
  closed, the socket of attempt \<open>n\<close> is connecting and held by \<open>wsRef\<close>, no timer is
  pending, and the attempt counter is \<open>n\<close>.
\<close>

definition connecting :: "nat \<Rightarrow> Hook \<Rightarrow> bool" where
  "connecting n h =
     (truthy (sessionId h) \<and> map readyState (sockets h) = replicate n CLOSED @ [CONNECTING] \<and>
      wsRef h = Some n \<and> timers h = [] \<and> reconnectAttemptsRef h = n \<and> nextTimer h = Suc n)"

text \<open>
  The state once the hook has given up: the six sockets (the first connection and five
  reconnects) are closed, no timer is pending, the counter is at the ceiling, and the
  connection status is disconnected.
\<close>

definition gaveUp :: "Hook \<Rightarrow> bool" where
  "gaveUp h =
     (map readyState (sockets h) = replicate 6 CLOSED \<and> wsRef h = Some 5 \<and> timers h = [] \<and>
      reconnectAttemptsRef h = 5 \<and> \<not> isConnected h)"

subsection \<open>Notions used to state the streaming properties\<close>

text \<open>A sequence of decodable frames, as the data \<open>onmessage\<close> receives.\<close>

definition parsed :: "(Runtime \<times> WebSocketMessage) list \<Rightarrow> (Runtime \<times> MessageData) list" where
  "parsed ms = map (\<lambda>(rt, m). (rt, Parses m)) ms"

text \<open>
  The concatenation, in arrival order, of the \<open>content\<close> of a sequence of frames (nothing
  for a frame without content).
\<close>

definition chunkText :: "(Runtime \<times> WebSocketMessage) list \<Rightarrow> string" where
  "chunkText ms = concat (map (\<lambda>(rt, m). orElse (ws_content m) []) ms)"

text \<open>
  The object literal \<open>handleMessage\<close> passes to \<open>addMessage\<close> in the
  \<open>agent_response_end\<close> case.
\<close>

definition assistantMessage :: "Runtime \<Rightarrow> WebSocketMessage \<Rightarrow> Message" where
  "assistantMessage rt message =
     \<lparr> m_id = randomUUID rt,
       m_conversation_id = orElse (ws_conversation_id message) [],
       m_role = Assistant,
       m_content = the (ws_full_response message),
       m_message_type = Text,
       m_tokens_used = 0,
       m_execution_time = None,
       m_metadata = [],
       m_created_at = createdISO rt,
       m_updated_at = updatedISO rt \<rparr>"

subsection \<open>Example values\<close>

definition exampleRuntime :: Runtime where
  "exampleRuntime = \<lparr> randomUUID = ''uuid-1'', createdISO = ''t1'', updatedISO = ''t2'' \<rparr>"

text \<open>A frame of the given type with no other field.\<close>

definition frame :: "string \<Rightarrow> WebSocketMessage" where
  "frame ty =
     \<lparr> ws_type = ty, ws_content = None, ws_session_id = None, ws_conversation_id = None,
       ws_full_response = None, ws_timestamp = None, ws_success = None, ws_action = None,
       ws_filepath = None, ws_error = None, ws_message = None \<rparr>"

definition chunkFrame :: "string \<Rightarrow> WebSocketMessage" where
  "chunkFrame text = (frame ''agent_response_chunk'')\<lparr>ws_content := Some text\<rparr>"

definition endFrame :: "string option \<Rightarrow> string option \<Rightarrow> WebSocketMessage" where
  "endFrame cid full =
     (frame ''agent_response_end'')\<lparr>ws_conversation_id := cid, ws_full_response := full\<rparr>"

definition emptyConversation :: "string \<Rightarrow> string \<Rightarrow> Conversation" where
  "emptyConversation cid sid =
     \<lparr> c_id = cid, c_session_id = sid, c_title = ''chat'', c_status = Conversation_active,
       c_agent_type = ''coder'', c_agent_config = [], c_metadata = [], c_messages = [],
       c_created_at = ''t0'', c_updated_at = ''t0'' \<rparr>"

definition userMessage :: "string \<Rightarrow> string \<Rightarrow> Message" where
  "userMessage cid text =
     \<lparr> m_id = ''m1'', m_conversation_id = cid, m_role = User, m_content = text,
       m_message_type = Text, m_tokens_used = 0, m_execution_time = None, m_metadata = [],
       m_created_at = ''t0'', m_updated_at = ''t0'' \<rparr>"

text \<open>
  A store holding, for session \<open>s1\<close>, the given conversations, the first of them also being
  the current conversation.
\<close>

definition storeWith :: "Conversation list \<Rightarrow> SessionState" where
  "storeWith cs =
     initialState\<lparr>conversations := [(''s1'', cs)],
                  currentConversation := (case cs of [] \<Rightarrow> None | c # _ \<Rightarrow> Some c)\<rparr>"

definition exampleHook :: "Conversation list \<Rightarrow> Hook" where
  "exampleHook cs = (initialHook (Some ''s1'') ''https:'' ''localhost'')\<lparr>store := storeWith cs\<rparr>"


section \<open>Properties of the store\<close>

lemmas setters = setWsConnection_def setAgentStatus_def setCurrentResponse_def
  addToCurrentResponse_def clearCurrentResponse_def

lemma addMessage_conversations_nth:
  assumes "i < length (conversations st)"
  shows "conversations (addMessage msg st) ! i =
           (fst (conversations st ! i), map (appendIfTarget msg) (snd (conversations st ! i)))"
  using assms by (simp add: addMessage_def case_prod_beta)

text \<open>
  Claim C9. \<open>addMessage\<close> keeps the session keys and the length of every conversation list;
  a conversation whose id equals the message's \<open>conversation_id\<close> gets the message appended
  after its previous messages (which keep their order) and is otherwise unchanged; every
  other conversation is unchanged; the current conversation is treated the same way; and
  the fields \<open>sessions\<close>, \<open>currentSession\<close>, \<open>isLoading\<close>, \<open>agentStatus\<close>,
  \<open>currentResponse\<close> and \<open>wsConnection\<close> are unchanged.
\<close>

theorem addMessage_appends_to_target_only:
  "map fst (conversations (addMessage msg st)) = map fst (conversations st) \<and>
   (\<forall>i < length (conversations st).
      length (snd (conversations (addMessage msg st) ! i)) = length (snd (conversations st ! i)) \<and>
      (\<forall>j < length (snd (conversations st ! i)).
         (c_id (snd (conversations st ! i) ! j) = m_conversation_id msg \<longrightarrow>
            snd (conversations (addMessage msg st) ! i) ! j =
              (snd (conversations st ! i) ! j)
                \<lparr>c_messages := c_messages (snd (conversations st ! i) ! j) @ [msg]\<rparr>) \<and>
         (c_id (snd (conversations st ! i) ! j) \<noteq> m_conversation_id msg \<longrightarrow>
            snd (conversations (addMessage msg st) ! i) ! j = snd (conversations st ! i) ! j))) \<and>
   currentConversation (addMessage msg st) =
     map_option (\<lambda>cc. if c_id cc = m_conversation_id msg
                       then cc\<lparr>c_messages := c_messages cc @ [msg]\<rparr> else cc)
                (currentConversation st) \<and>
   sessions (addMessage msg st) = sessions st \<and>
   currentSession (addMessage msg st) = currentSession st \<and>
   isLoading (addMessage msg st) = isLoading st \<and>
   agentStatus (addMessage msg st) = agentStatus st \<and>
   currentResponse (addMessage msg st) = currentResponse st \<and>
   wsConnection (addMessage msg st) = wsConnection st"
proof -
  have keys: "map fst (conversations (addMessage msg st)) = map fst (conversations st)"
    by (simp add: addMessage_def case_prod_beta comp_def)
  have cur: "currentConversation (addMessage msg st) =
     map_option (\<lambda>cc. if c_id cc = m_conversation_id msg
                       then cc\<lparr>c_messages := c_messages cc @ [msg]\<rparr> else cc)
                (currentConversation st)"
    by (simp add: addMessage_def split: option.splits)
  have rest: "sessions (addMessage msg st) = sessions st \<and>
   currentSession (addMessage msg st) = currentSession st \<and>
   isLoading (addMessage msg st) = isLoading st \<and>
   agentStatus (addMessage msg st) = agentStatus st \<and>
   currentResponse (addMessage msg st) = currentResponse st \<and>
   wsConnection (addMessage msg st) = wsConnection st"
    by (simp add: addMessage_def)
  have each: "\<forall>i < length (conversations st).
      length (snd (conversations (addMessage msg st) ! i)) = length (snd (conversations st ! i)) \<and>
      (\<forall>j < length (snd (conversations st ! i)).
         (c_id (snd (conversations st ! i) ! j) = m_conversation_id msg \<longrightarrow>
            snd (conversations (addMessage msg st) ! i) ! j =
              (snd (conversations st ! i) ! j)
                \<lparr>c_messages := c_messages (snd (conversations st ! i) ! j) @ [msg]\<rparr>) \<and>
         (c_id (snd (conversations st ! i) ! j) \<noteq> m_conversation_id msg \<longrightarrow>
            snd (conversations (addMessage msg st) ! i) ! j = snd (conversations st ! i) ! j))"
    by (simp add: addMessage_conversations_nth appendIfTarget_def)
  from keys each cur rest show ?thesis by blast
qed

text \<open>
  The store holds conversations \<open>c1\<close> and \<open>c2\<close> of session \<open>s1\<close>, \<open>c1\<close> being current; a
  message for \<open>c1\<close> lands in \<open>c1\<close> (in the list and in the current conversation) and not
  in \<open>c2\<close>.
\<close>

theorem addMessage_appends_to_target_only_witness:
  "(0::nat) < length (conversations (storeWith [emptyConversation ''c1'' ''s1'', emptyConversation ''c2'' ''s1''])) \<and>
   (1::nat) < length (snd (conversations (storeWith [emptyConversation ''c1'' ''s1'', emptyConversation ''c2'' ''s1'']) ! 0)) \<and>
   c_messages
     (snd (conversations
        (addMessage (userMessage ''c1'' ''hello'')
           (storeWith [emptyConversation ''c1'' ''s1'', emptyConversation ''c2'' ''s1''])) ! 0) ! 0) =
     [userMessage ''c1'' ''hello''] \<and>
   c_messages
     (snd (conversations
        (addMessage (userMessage ''c1'' ''hello'')
           (storeWith [emptyConversation ''c1'' ''s1'', emptyConversation ''c2'' ''s1''])) ! 0) ! 1) =
     [] \<and>
   map_option c_messages
     (currentConversation
        (addMessage (userMessage ''c1'' ''hello'')
           (storeWith [emptyConversation ''c1'' ''s1'', emptyConversation ''c2'' ''s1'']))) =
     Some [userMessage ''c1'' ''hello'']"
proof -
  let ?st = "storeWith [emptyConversation ''c1'' ''s1'', emptyConversation ''c2'' ''s1'']"
  let ?msg = "userMessage ''c1'' ''hello''"
  have len: "length (conversations ?st) = 1" "length (snd (conversations ?st ! 0)) = 2"
    by (simp_all add: storeWith_def initialState_def)
  have ids: "c_id (snd (conversations ?st ! 0) ! 0) = m_conversation_id ?msg"
            "c_id (snd (conversations ?st ! 0) ! 1) \<noteq> m_conversation_id ?msg"
    by (simp_all add: storeWith_def initialState_def emptyConversation_def userMessage_def)
  note inst = addMessage_appends_to_target_only [of ?msg ?st]
  from inst len ids have c0: "snd (conversations (addMessage ?msg ?st) ! 0) ! 0 =
      (snd (conversations ?st ! 0) ! 0)\<lparr>c_messages := c_messages (snd (conversations ?st ! 0) ! 0) @ [?msg]\<rparr>"
    by simp
  from inst len ids have c1: "snd (conversations (addMessage ?msg ?st) ! 0) ! 1 = snd (conversations ?st ! 0) ! 1"
    by simp
  from inst have cur: "currentConversation (addMessage ?msg ?st) =
     map_option (\<lambda>cc. if c_id cc = m_conversation_id ?msg
                       then cc\<lparr>c_messages := c_messages cc @ [?msg]\<rparr> else cc)
                (currentConversation ?st)"
    by blast
  have v0: "c_messages (snd (conversations (addMessage ?msg ?st) ! 0) ! 0) = [?msg]"
    unfolding c0 by (simp add: storeWith_def initialState_def emptyConversation_def)
  have v1: "c_messages (snd (conversations (addMessage ?msg ?st) ! 0) ! 1) = []"
    unfolding c1 by (simp add: storeWith_def initialState_def emptyConversation_def)
  have vc: "map_option c_messages (currentConversation (addMessage ?msg ?st)) = Some [?msg]"
    unfolding cur
    by (simp add: storeWith_def initialState_def emptyConversation_def userMessage_def)
  from len v0 v1 vc show ?thesis by simp
qed


section \<open>Properties of the event dispatcher\<close>

lemmas example_defs = exampleHook_def storeWith_def initialState_def initialHook_def
  emptyConversation_def frame_def chunkFrame_def endFrame_def exampleRuntime_def

lemmas dispatch_defs = dispatch_def onmessage_def JSON_parse_def handleMessage_def truthy_def
  orElse_def interpolate_def setters addMessage_def appendIfTarget_def heldConversations_def Let_def

lemma onmessage_agentStatus:
  "agentStatus (store (onmessage rt d h)) =
     (case dictatedState d of None \<Rightarrow> agentStatus (store h) | Some s \<Rightarrow> s)"
  by (cases d)
     (simp_all add: onmessage_def JSON_parse_def handleMessage_def dictatedState_def setters
        addMessage_def Let_def)

lemma dispatch_Cons: "dispatch ((rt, d) # frames) h = dispatch frames (onmessage rt d h)"
  by (simp add: dispatch_def)

lemma dispatch_agentStatus:
  "agentStatus (store (dispatch frames h)) =
     (case lastDictated frames of None \<Rightarrow> agentStatus (store h) | Some s \<Rightarrow> s)"
proof (induction frames arbitrary: h)
  case Nil
  show ?case by (simp add: dispatch_def)
next
  case (Cons f frames)
  obtain rt d where f: "f = (rt, d)" by (cases f)
  show ?case
    unfolding f dispatch_Cons Cons.IH
    by (simp add: onmessage_agentStatus split: option.splits)
qed

lemma onmessage_uncaught: "uncaught (onmessage rt d h) = uncaught h"
  by (cases d)
     (simp_all add: onmessage_def JSON_parse_def handleMessage_def Let_def)

lemma dispatch_uncaught: "uncaught (dispatch frames h) = uncaught h"
proof (induction frames arbitrary: h)
  case Nil
  show ?case by (simp add: dispatch_def)
next
  case (Cons f frames)
  obtain rt d where f: "f = (rt, d)" by (cases f)
  show ?case unfolding f dispatch_Cons Cons.IH by (rule onmessage_uncaught)
qed

lemma onmessage_ignored:
  assumes "ignoredFrame d"
  shows "store (onmessage rt d h) = store h \<and> toasts (onmessage rt d h) = toasts h \<and>
         uncaught (onmessage rt d h) = uncaught h"
  using assms
  by (cases d)
     (auto simp add: ignoredFrame_def recognizedKinds_def onmessage_def JSON_parse_def
        handleMessage_def)

text \<open>
  Claim C6. After the dispatcher has processed any sequence of inbound frames, the agent
  activity state is the one dictated by the last state-transitioning frame of the
  sequence (the state before, when there is none), and no exception has left a handler.
  A pong frame, a frame of unrecognized type and an undecodable frame each leave the
  store (so also the agent activity state) and the notices unchanged, without throwing.
\<close>

theorem dispatcher_state_from_last_transition:
  "agentStatus (store (dispatch frames h)) =
     (case lastDictated frames of None \<Rightarrow> agentStatus (store h) | Some s \<Rightarrow> s) \<and>
   uncaught (dispatch frames h) = uncaught h \<and>
   (\<forall>rt d. ignoredFrame d \<longrightarrow>
      store (onmessage rt d h) = store h \<and> toasts (onmessage rt d h) = toasts h \<and>
      uncaught (onmessage rt d h) = uncaught h)"
  using dispatch_agentStatus dispatch_uncaught onmessage_ignored by blast

text \<open>
  Frames \<open>code_execution\<close>, \<open>agent_response_start\<close>, pong, an unknown type and an
  undecodable frame: the state is \<open>responding\<close>, dictated by the second frame.
\<close>

theorem dispatcher_state_from_last_transition_witness:
  "ignoredFrame (Parses (frame ''pong'')) \<and> ignoredFrame (Parses (frame ''telemetry'')) \<and>
   ignoredFrame Unparseable \<and>
   agentStatus (store (dispatch
      [(exampleRuntime, Parses (frame ''code_execution'')),
       (exampleRuntime, Parses (frame ''agent_response_start'')),
       (exampleRuntime, Parses (frame ''pong'')),
       (exampleRuntime, Parses (frame ''telemetry'')),
       (exampleRuntime, Unparseable)] (exampleHook []))) = Responding \<and>
   store (onmessage exampleRuntime (Parses (frame ''telemetry'')) (exampleHook [])) = store (exampleHook []) \<and>
   store (onmessage exampleRuntime Unparseable (exampleHook [])) = store (exampleHook [])"
proof -
  have ign: "ignoredFrame (Parses (frame ''pong''))" "ignoredFrame (Parses (frame ''telemetry''))"
       "ignoredFrame Unparseable"
    by (simp_all add: ignoredFrame_def frame_def recognizedKinds_def)
  have last: "lastDictated
      [(exampleRuntime, Parses (frame ''code_execution'')),
       (exampleRuntime, Parses (frame ''agent_response_start'')),
       (exampleRuntime, Parses (frame ''pong'')),
       (exampleRuntime, Parses (frame ''telemetry'')),
       (exampleRuntime, Unparseable)] = Some Responding"
    by (simp add: dictatedState_def frame_def)
  note inst = dispatcher_state_from_last_transition
     [of "[(exampleRuntime, Parses (frame ''code_execution'')),
       (exampleRuntime, Parses (frame ''agent_response_start'')),
       (exampleRuntime, Parses (frame ''pong'')),
       (exampleRuntime, Parses (frame ''telemetry'')),
       (exampleRuntime, Unparseable)]" "exampleHook []"]
  from inst ign last show ?thesis by simp
qed

subsection \<open>The end of a streamed response\<close>

lemma dispatch_snoc: "dispatch (frames @ [(rt, d)]) h = onmessage rt d (dispatch frames h)"
  by (simp add: dispatch_def)

lemma chunk_appends:
  assumes "ws_type m = ''agent_response_chunk''"
  shows "onmessage rt (Parses m) h =
           h\<lparr>store := (store h)\<lparr>currentResponse := currentResponse (store h) @ orElse (ws_content m) []\<rparr>\<rparr>"
  using assms
  by (cases "ws_content m")
     (simp_all add: onmessage_def JSON_parse_def handleMessage_def truthy_def orElse_def
        addToCurrentResponse_def)

lemma chunks_accumulate:
  assumes "\<forall>(rt, m) \<in> set chunks. ws_type m = ''agent_response_chunk''"
  shows "dispatch (parsed chunks) h =
           h\<lparr>store := (store h)\<lparr>currentResponse := currentResponse (store h) @ chunkText chunks\<rparr>\<rparr>"
  using assms
proof (induction chunks arbitrary: h)
  case Nil
  show ?case by (simp add: dispatch_def parsed_def chunkText_def)
next
  case (Cons c chunks)
  obtain rt m where c: "c = (rt, m)" by (cases c)
  from Cons.prems c have ty: "ws_type m = ''agent_response_chunk''" by simp
  from Cons.prems have rest: "\<forall>(rt, m) \<in> set chunks. ws_type m = ''agent_response_chunk''" by simp
  have unf: "parsed ((rt, m) # chunks) = (rt, Parses m) # parsed chunks"
            "chunkText ((rt, m) # chunks) = orElse (ws_content m) [] @ chunkText chunks"
    by (simp_all add: parsed_def chunkText_def)
  show ?case
    unfolding c unf
    by (simp add: dispatch_Cons chunk_appends [OF ty] Cons.IH [OF rest])
qed

lemma start_clears:
  assumes "ws_type m = ''agent_response_start''"
  shows "onmessage rt (Parses m) h =
           h\<lparr>store := (store h)\<lparr>agentStatus := Responding, currentResponse := []\<rparr>\<rparr>"
  using assms
  by (simp add: onmessage_def JSON_parse_def handleMessage_def setters)

lemma onmessage_end_plain:
  assumes "ws_type m = ''agent_response_end''" and "\<not> truthy (ws_full_response m)"
  shows "onmessage rt (Parses m) h =
           h\<lparr>store := (store h)\<lparr>agentStatus := Idle, currentResponse := []\<rparr>\<rparr>"
  using assms
  by (simp add: onmessage_def JSON_parse_def handleMessage_def setters Let_def)

text \<open>
  Claim C1, as the code has it. After \<open>agent_response_start\<close> and any sequence of
  \<open>agent_response_chunk\<close> frames the streaming buffer holds the concatenation of the
  chunks' content in arrival order. An \<open>agent_response_end\<close> frame without a (non-empty)
  \<open>full_response\<close> then finalizes no Message: the conversations and the current
  conversation are as they were before the response started, the buffer is empty, the
  agent is idle, and nothing is thrown.
\<close>

theorem agent_response_end_without_override:
  assumes "ws_type start = ''agent_response_start''"
      and "\<forall>(rt, m) \<in> set chunks. ws_type m = ''agent_response_chunk''"
      and "ws_type fin = ''agent_response_end''"
      and "\<not> truthy (ws_full_response fin)"
  shows "currentResponse (store (dispatch ((rt0, Parses start) # parsed chunks) h)) = chunkText chunks \<and>
         conversations (store (dispatch (((rt0, Parses start) # parsed chunks) @ [(rt1, Parses fin)]) h)) =
           conversations (store h) \<and>
         currentConversation (store (dispatch (((rt0, Parses start) # parsed chunks) @ [(rt1, Parses fin)]) h)) =
           currentConversation (store h) \<and>
         currentResponse (store (dispatch (((rt0, Parses start) # parsed chunks) @ [(rt1, Parses fin)]) h)) = [] \<and>
         agentStatus (store (dispatch (((rt0, Parses start) # parsed chunks) @ [(rt1, Parses fin)]) h)) = Idle \<and>
         uncaught (dispatch (((rt0, Parses start) # parsed chunks) @ [(rt1, Parses fin)]) h) = uncaught h"
proof -
  have upto: "dispatch ((rt0, Parses start) # parsed chunks) h =
      h\<lparr>store := (store h)\<lparr>agentStatus := Responding, currentResponse := chunkText chunks\<rparr>\<rparr>"
    by (simp add: dispatch_Cons start_clears [OF assms(1)] chunks_accumulate [OF assms(2)])
  show ?thesis
    unfolding dispatch_snoc upto onmessage_end_plain [OF assms(3,4)]
    by simp
qed

text \<open>
  The chunks \<open>Hel\<close>, \<open>lo, \<close>, \<open>world\<close>: the buffer reads \<open>Hello, world\<close> before the end
  frame, and conversation \<open>c1\<close> is unchanged after it.
\<close>

theorem agent_response_end_without_override_witness:
  "ws_type (frame ''agent_response_start'') = ''agent_response_start'' \<and>
   map (\<lambda>(rt, m). ws_type m)
       [(exampleRuntime, chunkFrame ''Hel''), (exampleRuntime, chunkFrame ''lo, ''),
        (exampleRuntime, chunkFrame ''world'')] =
     [''agent_response_chunk'', ''agent_response_chunk'', ''agent_response_chunk''] \<and>
   ws_type (endFrame (Some ''c1'') None) = ''agent_response_end'' \<and>
   \<not> truthy (ws_full_response (endFrame (Some ''c1'') None)) \<and>
   currentResponse (store (dispatch
      ((exampleRuntime, Parses (frame ''agent_response_start'')) #
       parsed [(exampleRuntime, chunkFrame ''Hel''), (exampleRuntime, chunkFrame ''lo, ''),
               (exampleRuntime, chunkFrame ''world'')])
      (exampleHook [emptyConversation ''c1'' ''s1'']))) = ''Hello, world'' \<and>
   conversations (store (dispatch
      (((exampleRuntime, Parses (frame ''agent_response_start'')) #
        parsed [(exampleRuntime, chunkFrame ''Hel''), (exampleRuntime, chunkFrame ''lo, ''),
                (exampleRuntime, chunkFrame ''world'')]) @
       [(exampleRuntime, Parses (endFrame (Some ''c1'') None))])
      (exampleHook [emptyConversation ''c1'' ''s1'']))) = [(''s1'', [emptyConversation ''c1'' ''s1''])]"
proof -
  have hyps: "ws_type (frame ''agent_response_start'') = ''agent_response_start''"
    "\<forall>(rt, m) \<in> set [(exampleRuntime, chunkFrame ''Hel''), (exampleRuntime, chunkFrame ''lo, ''),
                      (exampleRuntime, chunkFrame ''world'')]. ws_type m = ''agent_response_chunk''"
    "ws_type (endFrame (Some ''c1'') None) = ''agent_response_end''"
    "\<not> truthy (ws_full_response (endFrame (Some ''c1'') None))"
    by (simp_all add: frame_def chunkFrame_def endFrame_def truthy_def)
  have joined: "chunkText [(exampleRuntime, chunkFrame ''Hel''), (exampleRuntime, chunkFrame ''lo, ''),
                      (exampleRuntime, chunkFrame ''world'')] = ''Hello, world''"
    by (simp add: chunkText_def chunkFrame_def orElse_def)
  have st: "conversations (store (exampleHook [emptyConversation ''c1'' ''s1''])) =
              [(''s1'', [emptyConversation ''c1'' ''s1''])]"
    by (simp add: exampleHook_def storeWith_def initialState_def)
  have kinds: "map (\<lambda>(rt, m). ws_type m)
       [(exampleRuntime, chunkFrame ''Hel''), (exampleRuntime, chunkFrame ''lo, ''),
        (exampleRuntime, chunkFrame ''world'')] =
     [''agent_response_chunk'', ''agent_response_chunk'', ''agent_response_chunk'']"
    by (simp add: chunkFrame_def frame_def)
  note inst = agent_response_end_without_override [OF hyps, of exampleRuntime "exampleHook [emptyConversation ''c1'' ''s1'']" exampleRuntime]
  from inst joined have g1: "currentResponse (store (dispatch
      ((exampleRuntime, Parses (frame ''agent_response_start'')) #
       parsed [(exampleRuntime, chunkFrame ''Hel''), (exampleRuntime, chunkFrame ''lo, ''),
               (exampleRuntime, chunkFrame ''world'')])
      (exampleHook [emptyConversation ''c1'' ''s1'']))) = ''Hello, world''"
    by simp
  from inst st have g2: "conversations (store (dispatch
      (((exampleRuntime, Parses (frame ''agent_response_start'')) #
        parsed [(exampleRuntime, chunkFrame ''Hel''), (exampleRuntime, chunkFrame ''lo, ''),
                (exampleRuntime, chunkFrame ''world'')]) @
       [(exampleRuntime, Parses (endFrame (Some ''c1'') None))])
      (exampleHook [emptyConversation ''c1'' ''s1'']))) = [(''s1'', [emptyConversation ''c1'' ''s1''])]"
    by simp
  from hyps(1,3,4) kinds g1 g2 show ?thesis by blast
qed

text \<open>
  Claim C1 as stated fails: after the chunks \<open>Hel\<close>, \<open>lo, \<close>, \<open>world\<close> and an end frame
  for conversation \<open>c1\<close> without \<open>full_response\<close>, no conversation of the store holds any
  message, where the claim expects one message \<open>Hello, world\<close>.
\<close>

theorem end_without_override_finalizes_nothing:
  "concat (map c_messages (heldConversations (store (dispatch
      [(exampleRuntime, Parses (frame ''agent_response_start'')),
       (exampleRuntime, Parses (chunkFrame ''Hel'')),
       (exampleRuntime, Parses (chunkFrame ''lo, '')),
       (exampleRuntime, Parses (chunkFrame ''world'')),
       (exampleRuntime, Parses (endFrame (Some ''c1'') None))]
      (exampleHook [emptyConversation ''c1'' ''s1'']))))) = []"
  by (simp add: dispatch_def onmessage_def JSON_parse_def handleMessage_def frame_def
        chunkFrame_def endFrame_def truthy_def setters exampleHook_def storeWith_def
        initialState_def initialHook_def emptyConversation_def heldConversations_def Let_def)

lemma onmessage_end_override:
  assumes "ws_type m = ''agent_response_end''" and "truthy (ws_full_response m)"
  shows "onmessage rt (Parses m) h =
           h\<lparr>store := clearCurrentResponse (addMessage (assistantMessage rt m) (setAgentStatus Idle (store h)))\<rparr>"
  using assms
  by (simp add: onmessage_def JSON_parse_def handleMessage_def Let_def assistantMessage_def)

lemma concat_snd_map:
  "concat (map (snd \<circ> (\<lambda>(k, cs). (k, map f cs))) xs) = map f (concat (map snd xs))"
  by (induction xs) auto

lemma heldConversations_addMessage:
  "heldConversations (addMessage msg st) = map (appendIfTarget msg) (heldConversations st)"
  by (simp add: heldConversations_def addMessage_def concat_snd_map appendIfTarget_def
        split: option.splits)

lemma heldConversations_setters:
  "heldConversations (clearCurrentResponse st) = heldConversations st"
  "heldConversations (setAgentStatus a st) = heldConversations st"
  by (simp_all add: heldConversations_def setters)

lemma map_snd_id:
  assumes "\<forall>c \<in> set (concat (map snd xs)). f c = c"
  shows "map (\<lambda>(k, cs). (k, map f cs)) xs = xs"
  using assms by (induction xs) (auto simp add: map_idI)

lemma addMessage_no_target:
  assumes "\<forall>c \<in> set (heldConversations st). c_id c \<noteq> m_conversation_id msg"
  shows "conversations (addMessage msg st) = conversations st \<and>
         currentConversation (addMessage msg st) = currentConversation st"
proof -
  from assms have a: "\<forall>c \<in> set (concat (map snd (conversations st))). appendIfTarget msg c = c"
    by (simp add: heldConversations_def appendIfTarget_def)
  have c1: "conversations (addMessage msg st) = conversations st"
    by (simp add: addMessage_def map_snd_id [OF a])
  from assms have c2: "currentConversation (addMessage msg st) = currentConversation st"
    by (auto simp add: addMessage_def heldConversations_def split: option.splits)
  from c1 c2 show ?thesis by simp
qed

text \<open>
  Claim C7, as the code has it. When an \<open>agent_response_end\<close> frame carries a non-empty
  \<open>full_response\<close>, every conversation the store holds whose id is the frame's
  \<open>conversation_id\<close> (the empty string when the frame has none) gets exactly one
  assistant Message appended, whose content is that \<open>full_response\<close>, whatever the
  streaming buffer held; every other conversation is unchanged; and afterwards the
  buffer is empty and the agent idle.
\<close>

theorem agent_response_end_with_override:
  assumes "ws_type fin = ''agent_response_end''"
      and "ws_full_response fin = Some r" and "r \<noteq> []"
  shows "length (heldConversations (store (onmessage rt (Parses fin) h))) =
           length (heldConversations (store h)) \<and>
         (\<forall>k < length (heldConversations (store h)).
            (c_id (heldConversations (store h) ! k) = orElse (ws_conversation_id fin) [] \<longrightarrow>
               heldConversations (store (onmessage rt (Parses fin) h)) ! k =
                 (heldConversations (store h) ! k)
                   \<lparr>c_messages := c_messages (heldConversations (store h) ! k) @ [assistantMessage rt fin]\<rparr>) \<and>
            (c_id (heldConversations (store h) ! k) \<noteq> orElse (ws_conversation_id fin) [] \<longrightarrow>
               heldConversations (store (onmessage rt (Parses fin) h)) ! k =
                 heldConversations (store h) ! k)) \<and>
         m_content (assistantMessage rt fin) = r \<and>
         m_role (assistantMessage rt fin) = Assistant \<and>
         currentResponse (store (onmessage rt (Parses fin) h)) = [] \<and>
         agentStatus (store (onmessage rt (Parses fin) h)) = Idle \<and>
         uncaught (onmessage rt (Parses fin) h) = uncaught h"
proof -
  from assms have t: "truthy (ws_full_response fin)" by (simp add: truthy_def)
  have held: "heldConversations (store (onmessage rt (Parses fin) h)) =
                map (appendIfTarget (assistantMessage rt fin)) (heldConversations (store h))"
    by (simp add: onmessage_end_override [OF assms(1) t] heldConversations_setters
          heldConversations_addMessage)
  have cid: "m_conversation_id (assistantMessage rt fin) = orElse (ws_conversation_id fin) []"
    by (simp add: assistantMessage_def)
  have p1: "length (heldConversations (store (onmessage rt (Parses fin) h))) =
           length (heldConversations (store h))"
    unfolding held by simp
  have p2: "\<forall>k < length (heldConversations (store h)).
            (c_id (heldConversations (store h) ! k) = orElse (ws_conversation_id fin) [] \<longrightarrow>
               heldConversations (store (onmessage rt (Parses fin) h)) ! k =
                 (heldConversations (store h) ! k)
                   \<lparr>c_messages := c_messages (heldConversations (store h) ! k) @ [assistantMessage rt fin]\<rparr>) \<and>
            (c_id (heldConversations (store h) ! k) \<noteq> orElse (ws_conversation_id fin) [] \<longrightarrow>
               heldConversations (store (onmessage rt (Parses fin) h)) ! k =
                 heldConversations (store h) ! k)"
    unfolding held by (simp add: appendIfTarget_def cid)
  have p3: "m_content (assistantMessage rt fin) = r \<and> m_role (assistantMessage rt fin) = Assistant"
    using assms(2) by (simp add: assistantMessage_def)
  have p4: "currentResponse (store (onmessage rt (Parses fin) h)) = [] \<and>
         agentStatus (store (onmessage rt (Parses fin) h)) = Idle \<and>
         uncaught (onmessage rt (Parses fin) h) = uncaught h"
    by (simp add: onmessage_end_override [OF assms(1) t] setters addMessage_def)
  from p1 p2 p3 p4 show ?thesis by blast
qed

text \<open>
  The buffer holds \<open>Hello, world\<close> when an end frame for \<open>c1\<close> with \<open>full_response\<close>
  \<open>Goodbye\<close> arrives: conversation \<open>c1\<close> then holds the one message \<open>Goodbye\<close>.
\<close>

theorem agent_response_end_with_override_witness:
  "ws_type (endFrame (Some ''c1'') (Some ''Goodbye'')) = ''agent_response_end'' \<and>
   ws_full_response (endFrame (Some ''c1'') (Some ''Goodbye'')) = Some ''Goodbye'' \<and>
   ''Goodbye'' \<noteq> [] \<and>
   currentResponse (store (dispatch
      [(exampleRuntime, Parses (frame ''agent_response_start'')),
       (exampleRuntime, Parses (chunkFrame ''Hel'')),
       (exampleRuntime, Parses (chunkFrame ''lo, '')),
       (exampleRuntime, Parses (chunkFrame ''world''))]
      (exampleHook [emptyConversation ''c1'' ''s1'']))) = ''Hello, world'' \<and>
   map m_content (c_messages (heldConversations (store
      (onmessage exampleRuntime (Parses (endFrame (Some ''c1'') (Some ''Goodbye'')))
         (dispatch
            [(exampleRuntime, Parses (frame ''agent_response_start'')),
             (exampleRuntime, Parses (chunkFrame ''Hel'')),
             (exampleRuntime, Parses (chunkFrame ''lo, '')),
             (exampleRuntime, Parses (chunkFrame ''world''))]
            (exampleHook [emptyConversation ''c1'' ''s1''])))) ! 0)) = [''Goodbye''] \<and>
   currentResponse (store
      (onmessage exampleRuntime (Parses (endFrame (Some ''c1'') (Some ''Goodbye'')))
         (dispatch
            [(exampleRuntime, Parses (frame ''agent_response_start'')),
             (exampleRuntime, Parses (chunkFrame ''Hel'')),
             (exampleRuntime, Parses (chunkFrame ''lo, '')),
             (exampleRuntime, Parses (chunkFrame ''world''))]
            (exampleHook [emptyConversation ''c1'' ''s1''])))) = []"
proof -
  let ?fin = "endFrame (Some ''c1'') (Some ''Goodbye'')"
  let ?h = "dispatch
      [(exampleRuntime, Parses (frame ''agent_response_start'')),
       (exampleRuntime, Parses (chunkFrame ''Hel'')),
       (exampleRuntime, Parses (chunkFrame ''lo, '')),
       (exampleRuntime, Parses (chunkFrame ''world''))]
      (exampleHook [emptyConversation ''c1'' ''s1''])"
  have hyps: "ws_type ?fin = ''agent_response_end''" "ws_full_response ?fin = Some ''Goodbye''"
       "''Goodbye'' \<noteq> []"
    by (simp_all add: endFrame_def frame_def)
  have buf: "currentResponse (store ?h) = ''Hello, world''"
    by (simp add: example_defs dispatch_defs)
  have pre: "0 < length (heldConversations (store ?h))"
     "c_id (heldConversations (store ?h) ! 0) = orElse (ws_conversation_id ?fin) []"
     "c_messages (heldConversations (store ?h) ! 0) = []"
    by (simp_all add: example_defs dispatch_defs)
  note inst = agent_response_end_with_override [OF hyps, of exampleRuntime ?h]
  from inst pre have new: "heldConversations (store (onmessage exampleRuntime (Parses ?fin) ?h)) ! 0 =
      (heldConversations (store ?h) ! 0)
         \<lparr>c_messages := c_messages (heldConversations (store ?h) ! 0) @ [assistantMessage exampleRuntime ?fin]\<rparr>"
    by blast
  from inst have body: "m_content (assistantMessage exampleRuntime ?fin) = ''Goodbye''"
    by blast
  from inst have cleared: "currentResponse (store (onmessage exampleRuntime (Parses ?fin) ?h)) = []"
    by blast
  have g: "map m_content (c_messages (heldConversations (store
      (onmessage exampleRuntime (Parses ?fin) ?h)) ! 0)) = [''Goodbye'']"
    unfolding new by (simp add: pre(3) body)
  from hyps buf g cleared show ?thesis by blast
qed

text \<open>
  Claim C7 as stated fails for the empty override: with \<open>Hello\<close> in the buffer, an end
  frame for \<open>c1\<close> that carries \<open>full_response: ""\<close> finalizes no Message.
\<close>

theorem empty_override_finalizes_nothing:
  "ws_full_response (endFrame (Some ''c1'') (Some [])) = Some [] \<and>
   concat (map c_messages (heldConversations (store (dispatch
      [(exampleRuntime, Parses (frame ''agent_response_start'')),
       (exampleRuntime, Parses (chunkFrame ''Hello'')),
       (exampleRuntime, Parses (endFrame (Some ''c1'') (Some [])))]
      (exampleHook [emptyConversation ''c1'' ''s1'']))))) = []"
  by (simp add: example_defs dispatch_defs)

text \<open>
  Claim C10, as the code has it. When the \<open>conversation_id\<close> of an
  \<open>agent_response_end\<close> frame, read as the empty string when it is absent or empty, is
  the id of no conversation the store holds, the frame changes no conversation: with a
  non-empty \<open>full_response\<close> the Message is built with that id and \<open>addMessage\<close> drops
  it; no notice is shown, nothing is logged and nothing is thrown.
\<close>

theorem agent_response_end_unknown_conversation:
  assumes "ws_type fin = ''agent_response_end''"
      and "\<forall>c \<in> set (heldConversations (store h)). c_id c \<noteq> orElse (ws_conversation_id fin) []"
  shows "conversations (store (onmessage rt (Parses fin) h)) = conversations (store h) \<and>
         currentConversation (store (onmessage rt (Parses fin) h)) = currentConversation (store h) \<and>
         (truthy (ws_full_response fin) \<longrightarrow>
            store (onmessage rt (Parses fin) h) =
              clearCurrentResponse (addMessage (assistantMessage rt fin) (setAgentStatus Idle (store h))) \<and>
            m_conversation_id (assistantMessage rt fin) = orElse (ws_conversation_id fin) []) \<and>
         toasts (onmessage rt (Parses fin) h) = toasts h \<and>
         console (onmessage rt (Parses fin) h) = console h \<and>
         uncaught (onmessage rt (Parses fin) h) = uncaught h"
proof (cases "truthy (ws_full_response fin)")
  case True
  from assms(2) have nt: "\<forall>c \<in> set (heldConversations (setAgentStatus Idle (store h))).
        c_id c \<noteq> m_conversation_id (assistantMessage rt fin)"
    by (simp add: heldConversations_setters assistantMessage_def)
  from addMessage_no_target [OF nt] show ?thesis
    by (simp add: onmessage_end_override [OF assms(1) True] setters assistantMessage_def)
next
  case False
  show ?thesis
    using False by (simp add: onmessage_end_plain [OF assms(1) False])
qed

text \<open>
  An end frame for the unknown conversation \<open>c9\<close>: the Message is built for \<open>c9\<close> and
  the store's conversations stay as they are.
\<close>

theorem agent_response_end_unknown_conversation_witness:
  "ws_type (endFrame (Some ''c9'') (Some ''hi'')) = ''agent_response_end'' \<and>
   map c_id (heldConversations (store (exampleHook [emptyConversation ''c1'' ''s1'']))) =
     [''c1'', ''c1''] \<and>
   orElse (ws_conversation_id (endFrame (Some ''c9'') (Some ''hi''))) [] = ''c9'' \<and>
   truthy (ws_full_response (endFrame (Some ''c9'') (Some ''hi''))) \<and>
   conversations (store (onmessage exampleRuntime (Parses (endFrame (Some ''c9'') (Some ''hi'')))
        (exampleHook [emptyConversation ''c1'' ''s1'']))) = [(''s1'', [emptyConversation ''c1'' ''s1''])] \<and>
   m_conversation_id (assistantMessage exampleRuntime (endFrame (Some ''c9'') (Some ''hi''))) = ''c9''"
proof -
  let ?fin = "endFrame (Some ''c9'') (Some ''hi'')"
  let ?h = "exampleHook [emptyConversation ''c1'' ''s1'']"
  have hyps: "ws_type ?fin = ''agent_response_end''"
    "\<forall>c \<in> set (heldConversations (store ?h)). c_id c \<noteq> orElse (ws_conversation_id ?fin) []"
    by (simp_all add: example_defs heldConversations_def orElse_def)
  have t: "truthy (ws_full_response ?fin)"
    by (simp add: endFrame_def frame_def truthy_def)
  have st: "conversations (store ?h) = [(''s1'', [emptyConversation ''c1'' ''s1''])]"
    by (simp add: exampleHook_def storeWith_def initialState_def)
  have oe: "orElse (ws_conversation_id ?fin) [] = ''c9''"
    by (simp add: endFrame_def frame_def orElse_def)
  note inst = agent_response_end_unknown_conversation [OF hyps, of exampleRuntime]
  from inst have same: "conversations (store (onmessage exampleRuntime (Parses ?fin) ?h)) =
      conversations (store ?h)"
    by blast
  from inst t have cid: "m_conversation_id (assistantMessage exampleRuntime ?fin) =
      orElse (ws_conversation_id ?fin) []"
    by blast
  from same st have g4: "conversations (store (onmessage exampleRuntime (Parses ?fin) ?h)) =
      [(''s1'', [emptyConversation ''c1'' ''s1''])]"
    by simp
  from cid oe have g5: "m_conversation_id (assistantMessage exampleRuntime ?fin) = ''c9''"
    by simp
  have ids: "map c_id (heldConversations (store ?h)) = [''c1'', ''c1'']"
    by (simp add: example_defs heldConversations_def)
  from hyps(1) ids oe t g4 g5 show ?thesis by blast
qed

text \<open>
  Claim C10 as stated fails when a conversation has the empty id: an end frame without
  \<open>conversation_id\<close> then appends its Message to that conversation.
\<close>

theorem absent_conversation_id_reaches_empty_id:
  "ws_conversation_id (endFrame None (Some ''hi'')) = None \<and>
   map (\<lambda>c. map m_content (c_messages c))
     (heldConversations (store (exampleHook [emptyConversation [] ''s1'']))) = [[], []] \<and>
   map (\<lambda>c. map m_content (c_messages c))
     (heldConversations (store
        (onmessage exampleRuntime (Parses (endFrame None (Some ''hi'')))
           (exampleHook [emptyConversation [] ''s1''])))) = [[''hi''], [''hi'']]"
  by (simp add: example_defs dispatch_defs)

section \<open>Properties of the connection manager\<close>

lemmas hook_defs = run_def connect_def newWebSocket_def wsUrl_def truthy_def interpolate_def
  onopen_def ws_send_def ws_close_def setReadyState_def onclose_def setTimeout_def
  clearTimeout_def maxReconnectAttempts_def reconnect_callback_def onerror_def disconnect_def
  initialHook_def initialState_def setters Let_def

subsection \<open>Closure of a transport\<close>

lemma onclose_effect:
  "isConnected (onclose code h) = False \<and>
   wsConnection (store (onclose code h)) = None \<and>
   agentStatus (store (onclose code h)) = Idle \<and>
   sockets (onclose code h) = sockets h \<and>
   uncaught (onclose code h) = uncaught h"
  by (simp add: onclose_def setTimeout_def setters Let_def)

lemma connect_store: "store (connect fails h) = store h"
  by (simp add: connect_def newWebSocket_def split: option.splits)

lemma connect_sockets:
  "sockets (connect fails h) =
     (if truthy (sessionId h) \<and> fails = None
      then sockets h @ [\<lparr>url = wsUrl h, readyState = CONNECTING, sent = [], closeArgs = None\<rparr>]
      else sockets h)"
  by (simp add: connect_def newWebSocket_def split: option.splits)

lemma onmessage_sockets: "sockets (onmessage rt d h) = sockets h"
  by (cases d) (simp_all add: onmessage_def JSON_parse_def handleMessage_def Let_def)

lemma ws_send_readyState:
  "ws_send i f h = Inr h' \<Longrightarrow>
     map readyState (sockets h') = map readyState (sockets h) \<and> store h' = store h"
  by (auto simp add: ws_send_def map_update list_eq_iff_nth_eq nth_list_update
        split: if_splits ReadyState.splits)

lemma onopen_sockets_store:
  "map readyState (sockets (onopen now h)) = map readyState (sockets h) \<and>
   agentStatus (store (onopen now h)) = agentStatus (store h)"
proof (cases "wsRef h")
  case None
  then show ?thesis by (simp add: onopen_def Let_def setters)
next
  case (Some ws)
  let ?h1 = "h\<lparr>console := console h @ [Console_log ''WebSocket connected''],
                 isConnected := True,
                 store := setWsConnection (wsRef h) (store h),
                 reconnectAttemptsRef := 0\<rparr>"
  show ?thesis
  proof (cases "ws_send ws (Ping now) ?h1")
    case (Inl err)
    with Some show ?thesis by (simp add: onopen_def Let_def setters)
  next
    case (Inr h2)
    from ws_send_readyState [OF Inr] Some Inr show ?thesis
      by (simp add: onopen_def Let_def setters)
  qed
qed

lemma ws_close_allClosed:
  "allClosed (ws_close i code reason h) \<Longrightarrow> ws_close i code reason h = h"
  by (auto simp add: ws_close_def allClosed_def list_all_length nth_list_update
        split: if_splits ReadyState.splits)

lemma clearTimeout_same:
  "sockets (clearTimeout t h) = sockets h \<and> store (clearTimeout t h) = store h"
  by (simp add: clearTimeout_def)

lemma ws_close_store: "store (ws_close i code reason h) = store h"
  by (simp add: ws_close_def split: ReadyState.splits)

lemma disconnect_idleWhenClosed:
  assumes "idleWhenClosed h"
  shows "idleWhenClosed (disconnect h)"
proof -
  let ?h1 = "case reconnectTimeoutRef h of None \<Rightarrow> h | Some t \<Rightarrow> clearTimeout t h"
  let ?h2 = "case wsRef ?h1 of None \<Rightarrow> ?h1 | Some ws \<Rightarrow> ws_close ws 1000 ''Component unmounting'' ?h1"
  have h1: "sockets ?h1 = sockets h" "store ?h1 = store h"
    by (simp_all add: clearTimeout_same split: option.splits)
  have st: "agentStatus (store (disconnect h)) = agentStatus (store h)"
    using h1 by (simp add: disconnect_def Let_def setters ws_close_store split: option.splits)
  have so: "sockets (disconnect h) = sockets ?h2"
    by (simp add: disconnect_def Let_def)
  show ?thesis
    unfolding idleWhenClosed_def
  proof
    assume ac: "allClosed (disconnect h)"
    then have ac2: "allClosed ?h2" by (simp add: allClosed_def so)
    have "sockets ?h2 = sockets ?h1"
    proof (cases "wsRef ?h1")
      case None
      then show ?thesis by simp
    next
      case (Some ws)
      with ac2 have "allClosed (ws_close ws 1000 ''Component unmounting'' ?h1)" by simp
      from ws_close_allClosed [OF this] Some show ?thesis by simp
    qed
    with ac2 h1 have "allClosed h" by (simp add: allClosed_def)
    with assms st show "agentStatus (store (disconnect h)) = Idle"
      by (simp add: idleWhenClosed_def)
  qed
qed

lemma connect_idleWhenClosed:
  assumes "idleWhenClosed h"
  shows "idleWhenClosed (connect fails h)"
  using assms
  by (auto simp add: idleWhenClosed_def allClosed_def connect_store connect_sockets)

lemma reconnect_callback_idleWhenClosed:
  assumes "idleWhenClosed h"
  shows "idleWhenClosed (reconnect_callback fails (clearTimeout t h))"
proof -
  from assms
  have "idleWhenClosed (clearTimeout t h\<lparr>reconnectAttemptsRef := Suc (reconnectAttemptsRef (clearTimeout t h))\<rparr>)"
    by (simp add: idleWhenClosed_def allClosed_def clearTimeout_def)
  from connect_idleWhenClosed [OF this] show ?thesis
    by (simp add: reconnect_callback_def)
qed

lemma step_idleWhenClosed:
  assumes "idleWhenClosed h"
  shows "idleWhenClosed (step e h)"
proof (cases e)
  case (Call_connect fails)
  with assms show ?thesis by (simp add: connect_idleWhenClosed)
next
  case Call_disconnect
  with assms show ?thesis by (simp add: disconnect_idleWhenClosed)
next
  case (Ev_open i now)
  show ?thesis
  proof (cases "i < length (sockets h) \<and> readyState (sockets h ! i) = CONNECTING")
    case True
    let ?o = "onopen now (setReadyState i OPEN h)"
    from onopen_sockets_store [of now "setReadyState i OPEN h"]
    have m: "map readyState (sockets ?o) = (map readyState (sockets h))[i := OPEN]"
      by (simp add: setReadyState_def map_update)
    then have "length (sockets ?o) = length (sockets h)"
      by (metis length_map length_list_update)
    with m True have "i < length (sockets ?o)" and "readyState (sockets ?o ! i) = OPEN"
      by (simp, metis True length_map nth_list_update_eq nth_map)
    then have "\<not> allClosed ?o"
      by (auto simp add: allClosed_def list_all_length)
    with True Ev_open show ?thesis by (simp add: idleWhenClosed_def)
  next
    case False
    with assms Ev_open show ?thesis by auto
  qed
next
  case (Ev_message i rt d)
  show ?thesis
  proof (cases "i < length (sockets h) \<and> readyState (sockets h ! i) = OPEN")
    case True
    then have "\<not> allClosed (onmessage rt d h)"
      by (auto simp add: allClosed_def list_all_length onmessage_sockets)
    with True Ev_message show ?thesis by (simp add: idleWhenClosed_def)
  next
    case False
    with assms Ev_message show ?thesis by auto
  qed
next
  case (Ev_close i code)
  with assms show ?thesis by (simp add: idleWhenClosed_def onclose_effect)
next
  case (Ev_error i)
  with assms show ?thesis by (simp add: idleWhenClosed_def allClosed_def onerror_def)
next
  case (Ev_timeout t fails)
  with assms show ?thesis by (simp add: reconnect_callback_idleWhenClosed)
qed

lemma run_idleWhenClosed:
  assumes "idleWhenClosed h"
  shows "idleWhenClosed (run es h)"
  using assms
proof (induction es arbitrary: h)
  case Nil
  then show ?case by (simp add: run_def)
next
  case (Cons e es)
  from Cons.IH [OF step_idleWhenClosed [OF Cons.prems]] show ?case
    by (simp add: run_def)
qed

lemma initialHook_idleWhenClosed: "idleWhenClosed (initialHook sid p host)"
  by (simp add: idleWhenClosed_def initialHook_def initialState_def)

text \<open>
  Claim C8. Whatever the closure code, \<open>onclose\<close> leaves the connection status
  disconnected, the store without a socket, and the agent idle; so does the closure of
  any socket that is not yet closed. Hence, in every state the hook reaches from its
  initial state, the agent is idle whenever every transport is closed.
\<close>

theorem closure_forces_disconnected_and_idle:
  "isConnected (onclose code h) = False \<and>
   wsConnection (store (onclose code h)) = None \<and>
   agentStatus (store (onclose code h)) = Idle \<and>
   (i < length (sockets h) \<and> readyState (sockets h ! i) \<noteq> CLOSED \<longrightarrow>
      readyState (sockets (step (Ev_close i code) h) ! i) = CLOSED \<and>
      isConnected (step (Ev_close i code) h) = False \<and>
      wsConnection (store (step (Ev_close i code) h)) = None \<and>
      agentStatus (store (step (Ev_close i code) h)) = Idle) \<and>
   (allClosed (run es (initialHook sid p host)) \<longrightarrow>
      agentStatus (store (run es (initialHook sid p host))) = Idle)"
proof -
  have inv: "allClosed (run es (initialHook sid p host)) \<longrightarrow>
      agentStatus (store (run es (initialHook sid p host))) = Idle"
    using run_idleWhenClosed [OF initialHook_idleWhenClosed, of es sid p host]
    by (simp add: idleWhenClosed_def)
  have ev: "i < length (sockets h) \<and> readyState (sockets h ! i) \<noteq> CLOSED \<longrightarrow>
      readyState (sockets (step (Ev_close i code) h) ! i) = CLOSED \<and>
      isConnected (step (Ev_close i code) h) = False \<and>
      wsConnection (store (step (Ev_close i code) h)) = None \<and>
      agentStatus (store (step (Ev_close i code) h)) = Idle"
    by (simp add: onclose_effect setReadyState_def)
  from onclose_effect [of code h] ev inv show ?thesis by blast
qed

text \<open>
  A socket opens and \<open>agent_response_start\<close> arrives: the agent is responding. The socket
  then closes, with code 1006 or with code 1000: the agent is idle.
\<close>

theorem closure_forces_disconnected_and_idle_witness:
  "(0::nat) < length (sockets (run [Call_connect None, Ev_open 0 17,
        Ev_message 0 exampleRuntime (Parses (frame ''agent_response_start''))]
        (initialHook (Some ''s1'') ''https:'' ''localhost''))) \<and>
   readyState (sockets (run [Call_connect None, Ev_open 0 17,
        Ev_message 0 exampleRuntime (Parses (frame ''agent_response_start''))]
        (initialHook (Some ''s1'') ''https:'' ''localhost'')) ! 0) = OPEN \<and>
   agentStatus (store (run [Call_connect None, Ev_open 0 17,
        Ev_message 0 exampleRuntime (Parses (frame ''agent_response_start''))]
        (initialHook (Some ''s1'') ''https:'' ''localhost''))) = Responding \<and>
   agentStatus (store (step (Ev_close 0 1006) (run [Call_connect None, Ev_open 0 17,
        Ev_message 0 exampleRuntime (Parses (frame ''agent_response_start''))]
        (initialHook (Some ''s1'') ''https:'' ''localhost'')))) = Idle \<and>
   isConnected (step (Ev_close 0 1006) (run [Call_connect None, Ev_open 0 17,
        Ev_message 0 exampleRuntime (Parses (frame ''agent_response_start''))]
        (initialHook (Some ''s1'') ''https:'' ''localhost''))) = False \<and>
   allClosed (run [Call_connect None, Ev_open 0 17,
        Ev_message 0 exampleRuntime (Parses (frame ''agent_response_start'')), Ev_close 0 1000]
        (initialHook (Some ''s1'') ''https:'' ''localhost'')) \<and>
   agentStatus (store (run [Call_connect None, Ev_open 0 17,
        Ev_message 0 exampleRuntime (Parses (frame ''agent_response_start'')), Ev_close 0 1000]
        (initialHook (Some ''s1'') ''https:'' ''localhost''))) = Idle"
proof -
  let ?h0 = "initialHook (Some ''s1'') ''https:'' ''localhost''"
  let ?es = "[Call_connect None, Ev_open 0 17,
        Ev_message 0 exampleRuntime (Parses (frame ''agent_response_start''))]"
  let ?es' = "[Call_connect None, Ev_open 0 17,
        Ev_message 0 exampleRuntime (Parses (frame ''agent_response_start'')), Ev_close 0 1000]"
  have pre: "0 < length (sockets (run ?es ?h0))" "readyState (sockets (run ?es ?h0) ! 0) = OPEN"
       "agentStatus (store (run ?es ?h0)) = Responding"
    by (simp_all add: hook_defs onmessage_def JSON_parse_def handleMessage_def frame_def)
  have cl: "allClosed (run ?es' ?h0)"
    by (simp add: allClosed_def hook_defs onmessage_def JSON_parse_def handleMessage_def frame_def)
  note inst = closure_forces_disconnected_and_idle [of 1006 "run ?es ?h0" 0 ?es' "Some ''s1''" "''https:''" "''localhost''"]
  from inst pre have g1: "agentStatus (store (step (Ev_close 0 1006) (run ?es ?h0))) = Idle"
     and g2: "isConnected (step (Ev_close 0 1006) (run ?es ?h0)) = False"
    by simp_all
  from inst cl have g3: "agentStatus (store (run ?es' ?h0)) = Idle"
    by blast
  from pre cl g1 g2 g3 show ?thesis by blast
qed

subsection \<open>Reconnection with backoff\<close>

lemma onclose_schedules:
  assumes "code \<noteq> 1000" and "reconnectAttemptsRef h < 5"
  shows "timers (onclose code h) =
           timers h @ [(nextTimer h, min (1000 * 2 ^ reconnectAttemptsRef h) 30000)] \<and>
         reconnectTimeoutRef (onclose code h) = Some (nextTimer h) \<and>
         nextTimer (onclose code h) = Suc (nextTimer h) \<and>
         reconnectAttemptsRef (onclose code h) = reconnectAttemptsRef h"
  using assms by (simp add: onclose_def setTimeout_def maxReconnectAttempts_def Let_def)

lemma onclose_gives_up:
  assumes "code = 1000 \<or> 5 \<le> reconnectAttemptsRef h"
  shows "timers (onclose code h) = timers h \<and>
         reconnectTimeoutRef (onclose code h) = reconnectTimeoutRef h \<and>
         nextTimer (onclose code h) = nextTimer h \<and>
         reconnectAttemptsRef (onclose code h) = reconnectAttemptsRef h"
  using assms by (auto simp add: onclose_def setTimeout_def maxReconnectAttempts_def Let_def)

lemma onclose_frame:
  "sockets (onclose code h) = sockets h \<and> wsRef (onclose code h) = wsRef h \<and>
   sessionId (onclose code h) = sessionId h \<and> isConnected (onclose code h) = False"
  by (simp add: onclose_def setTimeout_def Let_def)

lemma reconnect_callback_attempts:
  "reconnectAttemptsRef (reconnect_callback fails h) = Suc (reconnectAttemptsRef h)"
  by (simp add: reconnect_callback_def connect_def newWebSocket_def split: option.splits)

lemma onopen_resets: "reconnectAttemptsRef (onopen now h) = 0"
  by (auto simp add: onopen_def ws_send_def Let_def split: option.splits sum.splits ReadyState.splits if_splits)

lemma replicate_snoc_update:
  "(replicate n a @ [b])[n := a] = replicate (Suc n) a"
  by (induction n) simp_all

lemma close_connecting:
  assumes "connecting n h"
  shows "step (Ev_close n code) h = onclose code (setReadyState n CLOSED h) \<and>
         map readyState (sockets (setReadyState n CLOSED h)) = replicate (Suc n) CLOSED"
proof -
  from assms have m: "map readyState (sockets h) = replicate n CLOSED @ [CONNECTING]"
    by (simp add: connecting_def)
  then have len: "length (sockets h) = Suc n"
    by (metis length_map length_append_singleton length_replicate)
  from m len have rs: "readyState (sockets h ! n) = CONNECTING"
    by (metis lessI nth_map nth_append_length length_replicate)
  have "map readyState (sockets (setReadyState n CLOSED h)) = (map readyState (sockets h))[n := CLOSED]"
    using len by (simp add: setReadyState_def map_update)
  with m have "map readyState (sockets (setReadyState n CLOSED h)) = replicate (Suc n) CLOSED"
    by (simp only: replicate_snoc_update)
  with len rs show ?thesis by simp
qed

lemma failedAttempt_connecting:
  assumes "connecting n h" and "n < 5" and "code \<noteq> 1000"
  shows "connecting (Suc n) (failedAttempt code h) \<and>
         timers (step (Ev_close n code) h) = [(Suc n, min (1000 * 2 ^ n) 30000)]"
proof -
  let ?c = "setReadyState n CLOSED h"
  from assms(1) have f: "truthy (sessionId h)" "wsRef h = Some n" "timers h = []"
      "reconnectAttemptsRef h = n" "nextTimer h = Suc n"
    by (simp_all add: connecting_def)
  from close_connecting [OF assms(1)] have st: "step (Ev_close n code) h = onclose code ?c"
      and cl: "map readyState (sockets ?c) = replicate (Suc n) CLOSED"
    by simp_all
  have c: "timers ?c = []" "reconnectAttemptsRef ?c = n" "nextTimer ?c = Suc n"
       "sessionId ?c = sessionId h" "wsRef ?c = Some n"
    using f by (simp_all add: setReadyState_def)
  from onclose_schedules [OF assms(3), of ?c] assms(2) c
  have oc: "timers (onclose code ?c) = [(Suc n, min (1000 * 2 ^ n) 30000)]"
     "reconnectTimeoutRef (onclose code ?c) = Some (Suc n)"
     "nextTimer (onclose code ?c) = Suc (Suc n)"
     "reconnectAttemptsRef (onclose code ?c) = n"
    by simp_all
  from onclose_frame [of code ?c] c cl
  have fr: "map readyState (sockets (onclose code ?c)) = replicate (Suc n) CLOSED"
     "wsRef (onclose code ?c) = Some n" "sessionId (onclose code ?c) = sessionId h"
    by simp_all
  have fa: "failedAttempt code h = reconnect_callback None (clearTimeout (Suc n) (onclose code ?c))"
    using f(2) st oc by (simp add: failedAttempt_def Let_def)
  let ?d = "clearTimeout (Suc n) (onclose code ?c)"
  have d: "timers ?d = []" "sessionId ?d = sessionId h" "nextTimer ?d = Suc (Suc n)"
     "reconnectAttemptsRef ?d = n" "map readyState (sockets ?d) = replicate (Suc n) CLOSED"
    using oc fr by (simp_all add: clearTimeout_def)
  have len: "length (sockets ?d) = Suc n"
    using d(5) by (metis length_map length_replicate)
  have "connecting (Suc n) (reconnect_callback None ?d)"
    using d f(1) len
    by (simp add: connecting_def reconnect_callback_def connect_def newWebSocket_def)
  with fa st oc show ?thesis by simp
qed

lemma failedAttempt_gaveUp:
  assumes "connecting 5 h" and "code \<noteq> 1000"
  shows "gaveUp (failedAttempt code h)"
proof -
  let ?c = "setReadyState 5 CLOSED h"
  from assms(1) have f: "wsRef h = Some 5" "timers h = []" "reconnectAttemptsRef h = 5"
    by (simp_all add: connecting_def)
  from close_connecting [OF assms(1)] have st: "step (Ev_close 5 code) h = onclose code ?c"
      and cl: "map readyState (sockets ?c) = replicate 6 CLOSED"
    by (simp_all add: eval_nat_numeral)
  have c: "timers ?c = []" "reconnectAttemptsRef ?c = 5" "wsRef ?c = Some 5"
    using f by (simp_all add: setReadyState_def)
  from onclose_gives_up [of code ?c] c
  have oc: "timers (onclose code ?c) = []" "reconnectAttemptsRef (onclose code ?c) = 5"
    by simp_all
  from onclose_frame [of code ?c] c cl
  have fr: "map readyState (sockets (onclose code ?c)) = replicate 6 CLOSED"
     "wsRef (onclose code ?c) = Some 5" "\<not> isConnected (onclose code ?c)"
    by simp_all
  have "failedAttempt code h = onclose code ?c"
    using f(1) st oc by (simp add: failedAttempt_def Let_def split: option.splits)
  with oc fr show ?thesis by (simp add: gaveUp_def)
qed

lemma gaveUp_fixed:
  assumes "gaveUp h"
  shows "failedAttempt code h = h"
proof -
  from assms have m: "map readyState (sockets h) = replicate 6 CLOSED" and w: "wsRef h = Some 5"
     and t: "timers h = []"
    by (simp_all add: gaveUp_def)
  from m have len: "length (sockets h) = 6" by (metis length_map length_replicate)
  from m have "map readyState (sockets h) ! 5 = CLOSED" by simp
  with len have "readyState (sockets h ! 5) = CLOSED" by simp
  with w t show ?thesis
    by (simp add: failedAttempt_def Let_def split: option.splits)
qed

lemma connect_initial:
  assumes "truthy sid"
  shows "connecting 0 (connect None (initialHook sid p host))"
  using assms by (simp add: connecting_def connect_def newWebSocket_def initialHook_def)

lemma failures_connecting:
  assumes "truthy sid" and "code \<noteq> 1000" and "n \<le> 5"
  shows "connecting n ((failedAttempt code ^^ n) (connect None (initialHook sid p host)))"
  using assms(3)
proof (induction n)
  case 0
  show ?case by (simp add: connect_initial [OF assms(1)])
next
  case (Suc n)
  then have "connecting n ((failedAttempt code ^^ n) (connect None (initialHook sid p host)))" and "n < 5"
    by simp_all
  from failedAttempt_connecting [OF this assms(2)] show ?case by simp
qed

lemma failures_gaveUp:
  assumes "truthy sid" and "code \<noteq> 1000" and "5 < n"
  shows "gaveUp ((failedAttempt code ^^ n) (connect None (initialHook sid p host)))"
  using assms(3)
proof (induction n)
  case 0
  then show ?case by simp
next
  case (Suc n)
  show ?case
  proof (cases "n = 5")
    case True
    have "connecting n ((failedAttempt code ^^ n) (connect None (initialHook sid p host)))"
      using True by (simp add: failures_connecting [OF assms(1,2)])
    with True have "connecting 5 ((failedAttempt code ^^ n) (connect None (initialHook sid p host)))"
      by simp
    from failedAttempt_gaveUp [OF this assms(2)] show ?thesis by simp
  next
    case False
    with Suc.prems have "5 < n" by simp
    from Suc.IH [OF this] gaveUp_fixed [of _ code] show ?thesis by simp
  qed
qed

text \<open>
  Claim C3. When a transport closes with a code other than 1000 while the attempt
  counter is below 5, \<open>onclose\<close> schedules one timer with delay
  \<open>min (1000 * 2 ^ attempt) 30000\<close> ms and keeps its handle; when that timer expires the
  counter is incremented (and \<open>connect\<close> called). With the counter at 5 or more nothing
  is scheduled and the status is disconnected. \<open>onopen\<close> resets the counter to 0.
  Starting from a first \<open>connect\<close>, with every attempt failing: failure \<open>n < 5\<close> schedules
  the reconnect with delay \<open>min (1000 * 2 ^ n) 30000\<close>; after \<open>n \<le> 5\<close> failures the counter
  is \<open>n\<close> and attempt \<open>n\<close> is connecting; when the fifth reconnect has failed too, no
  timer is pending, all six sockets are closed, and the hook stays disconnected whatever
  number of further rounds is run.
\<close>

theorem reconnect_backoff:
  "(code \<noteq> 1000 \<and> reconnectAttemptsRef h < 5 \<longrightarrow>
      timers (onclose code h) =
        timers h @ [(nextTimer h, min (1000 * 2 ^ reconnectAttemptsRef h) 30000)] \<and>
      reconnectTimeoutRef (onclose code h) = Some (nextTimer h) \<and>
      reconnectAttemptsRef (reconnect_callback fails (onclose code h)) =
        Suc (reconnectAttemptsRef h)) \<and>
   (5 \<le> reconnectAttemptsRef h \<longrightarrow>
      timers (onclose code h) = timers h \<and> isConnected (onclose code h) = False) \<and>
   reconnectAttemptsRef (onopen now h) = 0 \<and>
   (truthy sid \<and> code \<noteq> 1000 \<longrightarrow>
      (n < 5 \<longrightarrow>
         timers (step (Ev_close n code)
                   ((failedAttempt code ^^ n) (connect None (initialHook sid p host)))) =
           [(Suc n, min (1000 * 2 ^ n) 30000)]) \<and>
      (n \<le> 5 \<longrightarrow>
         reconnectAttemptsRef ((failedAttempt code ^^ n) (connect None (initialHook sid p host))) = n \<and>
         map readyState (sockets ((failedAttempt code ^^ n) (connect None (initialHook sid p host)))) =
           replicate n CLOSED @ [CONNECTING]) \<and>
      (5 < n \<longrightarrow>
         timers ((failedAttempt code ^^ n) (connect None (initialHook sid p host))) = [] \<and>
         map readyState (sockets ((failedAttempt code ^^ n) (connect None (initialHook sid p host)))) =
           replicate 6 CLOSED \<and>
         reconnectAttemptsRef ((failedAttempt code ^^ n) (connect None (initialHook sid p host))) = 5 \<and>
         \<not> isConnected ((failedAttempt code ^^ n) (connect None (initialHook sid p host)))))"
proof -
  let ?h = "(failedAttempt code ^^ n) (connect None (initialHook sid p host))"
  have a: "code \<noteq> 1000 \<and> reconnectAttemptsRef h < 5 \<longrightarrow>
      timers (onclose code h) =
        timers h @ [(nextTimer h, min (1000 * 2 ^ reconnectAttemptsRef h) 30000)] \<and>
      reconnectTimeoutRef (onclose code h) = Some (nextTimer h) \<and>
      reconnectAttemptsRef (reconnect_callback fails (onclose code h)) =
        Suc (reconnectAttemptsRef h)"
    using onclose_schedules [of code h] by (simp add: reconnect_callback_attempts)
  have b: "5 \<le> reconnectAttemptsRef h \<longrightarrow>
      timers (onclose code h) = timers h \<and> isConnected (onclose code h) = False"
    using onclose_gives_up [of code h] onclose_frame [of code h] by simp
  have c: "reconnectAttemptsRef (onopen now h) = 0"
    by (rule onopen_resets)
  have d1: "timers (step (Ev_close n code) ?h) = [(Suc n, min (1000 * 2 ^ n) 30000)]"
    if "truthy sid \<and> code \<noteq> 1000" and "n < 5"
  proof -
    from that have "connecting n ?h" by (simp add: failures_connecting)
    from failedAttempt_connecting [OF this that(2)] that(1) show ?thesis by blast
  qed
  have d2: "reconnectAttemptsRef ?h = n \<and>
            map readyState (sockets ?h) = replicate n CLOSED @ [CONNECTING]"
    if "truthy sid \<and> code \<noteq> 1000" and "n \<le> 5"
  proof -
    from that have "connecting n ?h" by (simp add: failures_connecting)
    then show ?thesis by (simp add: connecting_def)
  qed
  have d3: "timers ?h = [] \<and> map readyState (sockets ?h) = replicate 6 CLOSED \<and>
            reconnectAttemptsRef ?h = 5 \<and> \<not> isConnected ?h"
    if "truthy sid \<and> code \<noteq> 1000" and "5 < n"
  proof -
    from that have "gaveUp ?h" by (simp add: failures_gaveUp)
    then show ?thesis by (simp add: gaveUp_def)
  qed
  from a b c d1 d2 d3 show ?thesis by blast
qed

text \<open>
  With code 1006 from a fresh hook: the first closure schedules a reconnect after
  1000 ms, the fourth after 8000 ms, and after seven rounds nothing is pending and the
  six sockets are closed.
\<close>

theorem reconnect_backoff_witness:
  "truthy (Some ''s1'') \<and> (1006::nat) \<noteq> 1000 \<and>
   reconnectAttemptsRef (initialHook (Some ''s1'') ''https:'' ''localhost'') < 5 \<and>
   timers (onclose 1006 (initialHook (Some ''s1'') ''https:'' ''localhost'')) = [(1, 1000)] \<and>
   timers (step (Ev_close 3 1006)
            ((failedAttempt 1006 ^^ 3) (connect None (initialHook (Some ''s1'') ''https:'' ''localhost'')))) =
     [(4, 8000)] \<and>
   reconnectAttemptsRef
     ((failedAttempt 1006 ^^ 3) (connect None (initialHook (Some ''s1'') ''https:'' ''localhost''))) = 3 \<and>
   timers ((failedAttempt 1006 ^^ 7) (connect None (initialHook (Some ''s1'') ''https:'' ''localhost''))) = [] \<and>
   map readyState (sockets
     ((failedAttempt 1006 ^^ 7) (connect None (initialHook (Some ''s1'') ''https:'' ''localhost'')))) =
     [CLOSED, CLOSED, CLOSED, CLOSED, CLOSED, CLOSED]"
proof -
  let ?h0 = "initialHook (Some ''s1'') ''https:'' ''localhost''"
  have pre: "truthy (Some ''s1'')" "(1006::nat) \<noteq> 1000" "reconnectAttemptsRef ?h0 < 5"
       "timers ?h0 = []" "nextTimer ?h0 = 1" "reconnectAttemptsRef ?h0 = 0"
    by (simp_all add: truthy_def initialHook_def)
  note i3 = reconnect_backoff [of 1006 ?h0 None 17 "Some ''s1''" 3 "''https:''" "''localhost''"]
  note i7 = reconnect_backoff [of 1006 ?h0 None 17 "Some ''s1''" 7 "''https:''" "''localhost''"]
  from i3 pre have g1: "timers (onclose 1006 ?h0) = [(1, 1000)]"
    by simp
  from i3 pre have g2: "timers (step (Ev_close 3 1006) ((failedAttempt 1006 ^^ 3) (connect None ?h0))) = [(4, 8000)]"
    by simp
  from i3 pre have g3: "reconnectAttemptsRef ((failedAttempt 1006 ^^ 3) (connect None ?h0)) = 3"
    by simp
  from i7 pre have g4: "timers ((failedAttempt 1006 ^^ 7) (connect None ?h0)) = []"
    by simp
  from i7 pre have "map readyState (sockets ((failedAttempt 1006 ^^ 7) (connect None ?h0))) = replicate 6 CLOSED"
    by simp
  then have g5: "map readyState (sockets ((failedAttempt 1006 ^^ 7) (connect None ?h0))) =
     [CLOSED, CLOSED, CLOSED, CLOSED, CLOSED, CLOSED]"
    by (simp add: eval_nat_numeral)
  from pre(1,2,3) g1 g2 g3 g4 g5 show ?thesis by blast
qed

subsection \<open>Failure to construct the transport\<close>

lemma filter_absent:
  assumes "t \<notin> set (map fst ts)"
  shows "filter (\<lambda>(k, d). k \<noteq> t) ts = ts"
  using assms by (induction ts) auto

text \<open>
  Claim C4, as the code has it. When the WebSocket constructor throws, \<open>connect\<close>
  catches the error: it logs it and sets the connection status to disconnected, and
  nothing else changes. No timer is scheduled, the attempt counter and the timer handle
  are untouched, and no exception leaves \<open>connect\<close>. The same holds when the failing
  \<open>connect\<close> is the one a reconnect timer runs: the backoff chain ends there.
\<close>

theorem construction_failure_is_only_logged:
  "timers (connect (Some err) h) = timers h \<and>
   reconnectTimeoutRef (connect (Some err) h) = reconnectTimeoutRef h \<and>
   reconnectAttemptsRef (connect (Some err) h) = reconnectAttemptsRef h \<and>
   sockets (connect (Some err) h) = sockets h \<and>
   wsRef (connect (Some err) h) = wsRef h \<and>
   store (connect (Some err) h) = store h \<and>
   toasts (connect (Some err) h) = toasts h \<and>
   uncaught (connect (Some err) h) = uncaught h \<and>
   (truthy (sessionId h) \<longrightarrow>
      isConnected (connect (Some err) h) = False \<and>
      console (connect (Some err) h) =
        console h @ [Console_error ''Error creating WebSocket connection:'']) \<and>
   timers (step (Ev_timeout t (Some err)) h) = filter (\<lambda>(k, d). k \<noteq> t) (timers h) \<and>
   uncaught (step (Ev_timeout t (Some err)) h) = uncaught h"
proof -
  have a: "timers (connect (Some err) h) = timers h \<and>
   reconnectTimeoutRef (connect (Some err) h) = reconnectTimeoutRef h \<and>
   reconnectAttemptsRef (connect (Some err) h) = reconnectAttemptsRef h \<and>
   sockets (connect (Some err) h) = sockets h \<and>
   wsRef (connect (Some err) h) = wsRef h \<and>
   store (connect (Some err) h) = store h \<and>
   toasts (connect (Some err) h) = toasts h \<and>
   uncaught (connect (Some err) h) = uncaught h"
    by (simp add: connect_def newWebSocket_def)
  have b: "truthy (sessionId h) \<longrightarrow>
      isConnected (connect (Some err) h) = False \<and>
      console (connect (Some err) h) =
        console h @ [Console_error ''Error creating WebSocket connection:'']"
    by (simp add: connect_def newWebSocket_def)
  have c: "timers (step (Ev_timeout t (Some err)) h) = filter (\<lambda>(k, d). k \<noteq> t) (timers h)"
  proof (cases "t \<in> set (map fst (timers h))")
    case True
    then show ?thesis
      by (simp add: reconnect_callback_def connect_def newWebSocket_def clearTimeout_def)
  next
    case False
    from filter_absent [OF this] False show ?thesis by simp
  qed
  have d: "uncaught (step (Ev_timeout t (Some err)) h) = uncaught h"
    by (simp add: reconnect_callback_def connect_def newWebSocket_def clearTimeout_def)
  from a b c d show ?thesis by blast
qed

text \<open>A fresh hook whose constructor throws: disconnected, one log entry, no timer.\<close>

theorem construction_failure_is_only_logged_witness:
  "truthy (sessionId (initialHook (Some ''s1'') ''https:'' ''localhost'')) \<and>
   isConnected (connect (Some ''SyntaxError'') (initialHook (Some ''s1'') ''https:'' ''localhost'')) = False \<and>
   timers (connect (Some ''SyntaxError'') (initialHook (Some ''s1'') ''https:'' ''localhost'')) = [] \<and>
   console (connect (Some ''SyntaxError'') (initialHook (Some ''s1'') ''https:'' ''localhost'')) =
     [Console_error ''Error creating WebSocket connection:'']"
proof -
  let ?h0 = "initialHook (Some ''s1'') ''https:'' ''localhost''"
  have pre: "truthy (sessionId ?h0)" "timers ?h0 = []" "console ?h0 = []"
    by (simp_all add: initialHook_def truthy_def)
  note inst = construction_failure_is_only_logged [of "''SyntaxError''" ?h0 0]
  from inst pre have g1: "isConnected (connect (Some ''SyntaxError'') ?h0) = False"
    and g2: "timers (connect (Some ''SyntaxError'') ?h0) = []"
    and g3: "console (connect (Some ''SyntaxError'') ?h0) =
               [Console_error ''Error creating WebSocket connection:'']"
    by simp_all
  from pre(1) g1 g2 g3 show ?thesis by blast
qed

text \<open>
  Claim C4 as stated fails: in the same state, with the attempt counter at 0, a closure
  with code 1006 schedules a reconnect after 1000 ms, while a constructor that throws
  schedules none.
\<close>

theorem construction_failure_schedules_no_reconnect:
  "reconnectAttemptsRef (initialHook (Some ''s1'') ''https:'' ''localhost'') = 0 \<and>
   timers (onclose 1006 (initialHook (Some ''s1'') ''https:'' ''localhost'')) = [(1, 1000)] \<and>
   timers (connect (Some ''SyntaxError'') (initialHook (Some ''s1'') ''https:'' ''localhost'')) = [] \<and>
   reconnectTimeoutRef (connect (Some ''SyntaxError'') (initialHook (Some ''s1'') ''https:'' ''localhost'')) = None"
  by (simp add: hook_defs)

subsection \<open>disconnect\<close>

text \<open>
  Claim C5 fails on the code. \<open>disconnect\<close> clears only the timer
  \<open>reconnectTimeoutRef\<close> holds and never looks at the closure that follows it.
  First input: two transports (see the second \<open>connect\<close> below) close with code 1006, so
  two reconnect timers are pending and the ref holds the second; \<open>disconnect\<close> cancels
  that one only, and the first still expires and opens a new socket. Second input:
  \<open>disconnect\<close> runs while the socket is still connecting; it is closed with code 1000,
  but the browser reports the closure of a socket that never opened with code 1006, so
  \<open>onclose\<close> schedules a reconnect after the explicit disconnect, and it opens a new
  socket.
\<close>

theorem reconnect_after_disconnect:
  "timers (run [Call_connect None, Call_connect None, Ev_close 0 1006, Ev_close 1 1006]
      (initialHook (Some ''s1'') ''https:'' ''localhost'')) = [(1, 1000), (2, 1000)] \<and>
   reconnectTimeoutRef (run [Call_connect None, Call_connect None, Ev_close 0 1006, Ev_close 1 1006]
      (initialHook (Some ''s1'') ''https:'' ''localhost'')) = Some 2 \<and>
   timers (run [Call_connect None, Call_connect None, Ev_close 0 1006, Ev_close 1 1006, Call_disconnect]
      (initialHook (Some ''s1'') ''https:'' ''localhost'')) = [(1, 1000)] \<and>
   map readyState (sockets (run [Call_connect None, Call_connect None, Ev_close 0 1006, Ev_close 1 1006,
        Call_disconnect, Ev_timeout 1 None]
      (initialHook (Some ''s1'') ''https:'' ''localhost''))) = [CLOSED, CLOSED, CONNECTING] \<and>
   map readyState (sockets (run [Call_connect None, Call_disconnect]
      (initialHook (Some ''s1'') ''https:'' ''localhost''))) = [CLOSING] \<and>
   map closeArgs (sockets (run [Call_connect None, Call_disconnect]
      (initialHook (Some ''s1'') ''https:'' ''localhost''))) = [Some (1000, ''Component unmounting'')] \<and>
   timers (run [Call_connect None, Call_disconnect]
      (initialHook (Some ''s1'') ''https:'' ''localhost'')) = [] \<and>
   timers (run [Call_connect None, Call_disconnect, Ev_close 0 1006]
      (initialHook (Some ''s1'') ''https:'' ''localhost'')) = [(1, 1000)] \<and>
   map readyState (sockets (run [Call_connect None, Call_disconnect, Ev_close 0 1006, Ev_timeout 1 None]
      (initialHook (Some ''s1'') ''https:'' ''localhost''))) = [CLOSED, CONNECTING]"
  by (simp add: hook_defs)

subsection \<open>A second connect\<close>

text \<open>
  Claim C2 fails on the code. \<open>connect\<close> called again while the first transport is open
  constructs a second socket for the same url and closes nothing: both sockets are open,
  neither has been asked to close, and a frame the server sends on both is dispatched
  twice (the chunk \<open>hi\<close> is accumulated as \<open>hihi\<close>).
\<close>

theorem second_connect_keeps_first_transport:
  "map readyState (sockets (run [Call_connect None, Ev_open 0 17, Call_connect None, Ev_open 1 18]
      (initialHook (Some ''s1'') ''https:'' ''localhost''))) = [OPEN, OPEN] \<and>
   map closeArgs (sockets (run [Call_connect None, Ev_open 0 17, Call_connect None, Ev_open 1 18]
      (initialHook (Some ''s1'') ''https:'' ''localhost''))) = [None, None] \<and>
   map url (sockets (run [Call_connect None, Ev_open 0 17, Call_connect None, Ev_open 1 18]
      (initialHook (Some ''s1'') ''https:'' ''localhost''))) =
     [''wss://localhost/ws/s1'', ''wss://localhost/ws/s1''] \<and>
   currentResponse (store (run [Call_connect None, Ev_open 0 17, Call_connect None, Ev_open 1 18,
        Ev_message 0 exampleRuntime (Parses (chunkFrame ''hi'')),
        Ev_message 1 exampleRuntime (Parses (chunkFrame ''hi''))]
      (initialHook (Some ''s1'') ''https:'' ''localhost''))) = ''hihi''"
  by (simp add: hook_defs onmessage_def JSON_parse_def handleMessage_def chunkFrame_def frame_def)

end
